theory Spec2Isabelle
  imports Complex_Main "HOL-Library.Multiset"
begin

section \<open>The live-events aggregation server: model\<close>

text \<open>
  The definitions below embed the parts of the Express server (the file holding
  \<^verbatim>\<open>app.get('/api/shows')\<close>) that decide the properties proved in the second half of
  this theory. JavaScript values are modelled as follows.

  \<^item> A string is a \<^typ>\<open>string\<close>; a property that may be \<^verbatim>\<open>undefined\<close> or
    \<^verbatim>\<open>null\<close> is an \<^typ>\<open>'a option\<close>. A string is truthy when it is present and
    not empty.
  \<^item> A number is a \<open>jsnum\<close>: a finite value, \<^verbatim>\<open>NaN\<close> or one of the two
    infinities. Time values are integers (milliseconds since the epoch).
  \<^item> A thrown \<^verbatim>\<open>Error\<close> is the left injection of a sum; the fields the server
    reads from it (\<^verbatim>\<open>message\<close>, \<^verbatim>\<open>status\<close>, \<^verbatim>\<open>code\<close>,
    \<^verbatim>\<open>requestUrl\<close>) are a record.
  \<^item> What the network, the cache and the clock deliver is an argument of the model.
    So are the built-ins that convert text to floating-point numbers and to dates
    (\<^verbatim>\<open>Number\<close>, \<^verbatim>\<open>Number.parseFloat\<close>, \<^verbatim>\<open>Date.parse\<close>,
    \<^verbatim>\<open>toISOString\<close>, \<^verbatim>\<open>Intl.DateTimeFormat\<close>): every theorem holds for all of
    them. \<^verbatim>\<open>Number.parseInt\<close>, \<^verbatim>\<open>Date.UTC\<close> and \<^verbatim>\<open>getUTCDay\<close> are written
    out after ECMA-262.
\<close>

subsection \<open>Strings and numbers\<close>

datatype jsnum = Num real | NaN | PosInf | NegInf

text \<open>\<^verbatim>\<open>Number.isFinite\<close> on a value that may be \<^verbatim>\<open>null\<close>.\<close>

fun isFinite :: "jsnum option \<Rightarrow> bool" where
  "isFinite (Some (Num x)) = True"
| "isFinite _ = False"

definition truthy :: "string option \<Rightarrow> bool" where
  "truthy v = (case v of None \<Rightarrow> False | Some s \<Rightarrow> s \<noteq> [])"

definition isDigit :: "char \<Rightarrow> bool" where
  "isDigit c = (c \<in> set ''0123456789'')"

definition digitVal :: "char \<Rightarrow> int" where
  "digitVal c = of_char c - 48"

text \<open>
  White space as \<^verbatim>\<open>String.prototype.trim\<close> and the regular expression class
  \<^verbatim>\<open>\s\<close> see it, on the code units below 256: tab, line feed, vertical tab, form
  feed, carriage return, space and the no-break space.
\<close>

definition isSpace :: "char \<Rightarrow> bool" where
  "isSpace c = (of_char c \<in> {9, 10, 11, 12, 13, 32, 160 :: nat})"

definition trimStart :: "string \<Rightarrow> string" where
  "trimStart s = dropWhile isSpace s"

definition trim :: "string \<Rightarrow> string" where
  "trim s = rev (dropWhile isSpace (rev (dropWhile isSpace s)))"

text \<open>Exactly \<open>n\<close> decimal digits at the head of a string (\<^verbatim>\<open>\d{n}\<close>), read as
  \<^verbatim>\<open>Number\<close> reads a run of digits, and the rest of the string.\<close>

fun digitsN :: "nat \<Rightarrow> string \<Rightarrow> (int \<times> string) option" where
  "digitsN 0 s = Some (0, s)"
| "digitsN (Suc n) [] = None"
| "digitsN (Suc n) (c # cs) =
     (if isDigit c
      then (case digitsN n cs of
              None \<Rightarrow> None
            | Some (v, r) \<Rightarrow> Some (digitVal c * 10 ^ n + v, r))
      else None)"

definition expectChar :: "char list \<Rightarrow> string \<Rightarrow> string option" where
  "expectChar allowed s =
     (case s of [] \<Rightarrow> None | c # cs \<Rightarrow> if c \<in> set allowed then Some cs else None)"

text \<open>An unanchored regular expression tries each start position from the left.\<close>

fun regexSearch :: "(string \<Rightarrow> 'a option) \<Rightarrow> string \<Rightarrow> 'a option" where
  "regexSearch m [] = m []"
| "regexSearch m (c # cs) =
     (case m (c # cs) of Some r \<Rightarrow> Some r | None \<Rightarrow> regexSearch m cs)"

subsection \<open>Dates (ECMA-262, section "Date Objects")\<close>

definition msPerDay :: int where
  "msPerDay = 86400000"

definition DayFromYear :: "int \<Rightarrow> int" where
  "DayFromYear y =
     365 * (y - 1970) + (y - 1969) div 4 - (y - 1901) div 100 + (y - 1601) div 400"

definition InLeapYear :: "int \<Rightarrow> bool" where
  "InLeapYear y = (y mod 4 = 0 \<and> (y mod 100 \<noteq> 0 \<or> y mod 400 = 0))"

definition monthStart :: "int list" where
  "monthStart = [0, 31, 59, 90, 120, 151, 181, 212, 243, 273, 304, 334]"

text \<open>\<^verbatim>\<open>MakeDay(year, month, date)\<close>: the month is zero-based and may lie outside
  \<open>0..11\<close>, the date may lie outside the month; both carry over.\<close>

definition MakeDay :: "int \<Rightarrow> int \<Rightarrow> int \<Rightarrow> int" where
  "MakeDay year month date =
     (let ym = year + month div 12;
          mn = nat (month mod 12)
      in DayFromYear ym + monthStart ! mn
           + (if 2 \<le> mn \<and> InLeapYear ym then 1 else 0) + date - 1)"

definition MakeTime :: "int \<Rightarrow> int \<Rightarrow> int \<Rightarrow> int" where
  "MakeTime hour minute second = hour * 3600000 + minute * 60000 + second * 1000"

text \<open>\<^verbatim>\<open>TimeClip\<close>: a time value beyond 8.64e15 milliseconds is \<^verbatim>\<open>NaN\<close>
  (here \<open>None\<close>).\<close>

definition TimeClip :: "int \<Rightarrow> int option" where
  "TimeClip t = (if \<bar>t\<bar> > 8640000000000000 then None else Some t)"

text \<open>\<^verbatim>\<open>Date.UTC(year, month, day, hour, minute, second)\<close> on integers: a year in
  \<open>0..99\<close> means \<open>1900 + year\<close>.\<close>

definition Date_UTC :: "int \<Rightarrow> int \<Rightarrow> int \<Rightarrow> int \<Rightarrow> int \<Rightarrow> int \<Rightarrow> int option" where
  "Date_UTC year month day hour minute second =
     (let yr = (if 0 \<le> year \<and> year \<le> 99 then 1900 + year else year)
      in TimeClip (MakeDay yr month day * msPerDay + MakeTime hour minute second))"

text \<open>\<^verbatim>\<open>getUTCDay\<close>: 0 is Sunday; the epoch was a Thursday.\<close>

definition getUTCDay :: "int \<Rightarrow> int" where
  "getUTCDay t = (t div msPerDay + 4) mod 7"

subsection \<open>The canonical event\<close>

record start_time =
  local :: "string option"
  utc :: "string option"

text \<open>
  The fields of an event that the aggregation reads. \<open>distance\<close> is \<open>None\<close> when
  the property is absent, \<^verbatim>\<open>null\<close> or not a finite number: every adapter stores a
  distance only after \<^verbatim>\<open>Number.isFinite\<close>. The remaining properties (venue, url,
  images, the provider's extension bag) are carried along untouched and are summed up
  in \<open>extras\<close>.
\<close>

record event =
  event_id :: "string option"
  name :: string
  start :: "start_time option"
  source :: "string option"
  distance :: "real option"
  genres :: "string list"
  extras :: string

subsection \<open>The weekday cutoff\<close>

definition WEEKDAY_CUTOFF_HOUR :: int where
  "WEEKDAY_CUTOFF_HOUR = 16"

definition WEEKDAY_CUTOFF_MINUTE :: int where
  "WEEKDAY_CUTOFF_MINUTE = 30"

definition getEventStartValue :: "event \<Rightarrow> string" where
  "getEventStartValue e =
     (case start e of
        None \<Rightarrow> []
      | Some st \<Rightarrow>
          (case local st of
             Some l \<Rightarrow>
               if trim l \<noteq> [] then l
               else (case utc st of
                       Some u \<Rightarrow> if trim u \<noteq> [] then u else []
                     | None \<Rightarrow> [])
           | None \<Rightarrow>
               (case utc st of
                  Some u \<Rightarrow> if trim u \<noteq> [] then u else []
                | None \<Rightarrow> [])))"

text \<open>The object that \<^verbatim>\<open>parseEventLocalParts\<close> returns; its properties
  \<^verbatim>\<open>year\<close>, \<^verbatim>\<open>month\<close>, \<^verbatim>\<open>day\<close>, \<^verbatim>\<open>hour\<close> and \<^verbatim>\<open>minute\<close> carry the prefix
  \<open>p_\<close> here.\<close>

record local_parts =
  p_year :: int
  p_month :: int
  p_day :: int
  p_hour :: "int option"
  p_minute :: "int option"

text \<open>The optional group \<^verbatim>\<open>(?:[Tt ](\d{2}):(\d{2}))?\<close>.\<close>

definition matchTimeGroup :: "string \<Rightarrow> (int \<times> int) option" where
  "matchTimeGroup s =
     (case expectChar ''Tt '' s of
        None \<Rightarrow> None
      | Some r1 \<Rightarrow>
          (case digitsN 2 r1 of
             None \<Rightarrow> None
           | Some (h, r2) \<Rightarrow>
               (case expectChar '':'' r2 of
                  None \<Rightarrow> None
                | Some r3 \<Rightarrow>
                    (case digitsN 2 r3 of
                       None \<Rightarrow> None
                     | Some (mi, r4) \<Rightarrow> Some (h, mi)))))"

text \<open>One attempt of \<^verbatim>\<open>(\d{4})-(\d{2})-(\d{2})(?:[Tt ](\d{2}):(\d{2}))?\<close> at the head
  of a string.\<close>

definition matchLocalPartsAt :: "string \<Rightarrow> local_parts option" where
  "matchLocalPartsAt s =
     (case digitsN 4 s of
        None \<Rightarrow> None
      | Some (y, r1) \<Rightarrow>
          (case expectChar ''-'' r1 of
             None \<Rightarrow> None
           | Some r2 \<Rightarrow>
               (case digitsN 2 r2 of
                  None \<Rightarrow> None
                | Some (m, r3) \<Rightarrow>
                    (case expectChar ''-'' r3 of
                       None \<Rightarrow> None
                     | Some r4 \<Rightarrow>
                         (case digitsN 2 r4 of
                            None \<Rightarrow> None
                          | Some (d, r5) \<Rightarrow>
                              Some \<lparr>p_year = y, p_month = m, p_day = d,
                                    p_hour = map_option fst (matchTimeGroup r5),
                                    p_minute = map_option snd (matchTimeGroup r5)\<rparr>)))))"

definition parseEventLocalParts :: "string \<Rightarrow> local_parts option" where
  "parseEventLocalParts v = (if v = [] then None else regexSearch matchLocalPartsAt v)"

definition isWeekdayBeforeCutoff :: "event \<Rightarrow> bool" where
  "isWeekdayBeforeCutoff e =
     (if truthy (source e) \<and> source e \<noteq> Some ''ticketmaster'' then False
      else
        let raw = getEventStartValue e in
        if raw = [] then False
        else
          (case parseEventLocalParts raw of
             None \<Rightarrow> False
           | Some parts \<Rightarrow>
               (case Date_UTC (p_year parts) (p_month parts - 1) (p_day parts) 0 0 0 of
                  None \<Rightarrow> False
                | Some t \<Rightarrow>
                    let weekday = getUTCDay t in
                    if \<not> (1 \<le> weekday \<and> weekday \<le> 5) then False
                    else
                      (case p_hour parts of
                         None \<Rightarrow> False
                       | Some h \<Rightarrow>
                           (case p_minute parts of
                              None \<Rightarrow> False
                            | Some mi \<Rightarrow>
                                if h < WEEKDAY_CUTOFF_HOUR then True
                                else if h = WEEKDAY_CUTOFF_HOUR \<and> mi < WEEKDAY_CUTOFF_MINUTE
                                then True
                                else False)))))"

definition applyWeekdayCutoff :: "event list \<Rightarrow> event list" where
  "applyWeekdayCutoff events = filter (\<lambda>e. \<not> isWeekdayBeforeCutoff e) events"

subsection \<open>The global sort\<close>

text \<open>
  The built-ins whose results depend on floating-point rounding, on the host's date
  parser or on its time-zone data are the fields of one record. \<open>Date_parse\<close> is
  \<open>None\<close> where \<^verbatim>\<open>Date.parse\<close> is \<^verbatim>\<open>NaN\<close>; \<open>roundScaled x f\<close> is
  \<^verbatim>\<open>Math.round(x * f) / f\<close> in double arithmetic; \<open>zoneOffset z\<close> is \<open>None\<close>
  where \<^verbatim>\<open>Intl.DateTimeFormat\<close> rejects the zone name, and otherwise gives the
  zone's offset from UTC, in milliseconds, at each instant.
\<close>

record builtins =
  Number_parseFloat :: "string \<Rightarrow> jsnum"
  Number_of :: "string \<Rightarrow> jsnum"
  roundScaled :: "real \<Rightarrow> real \<Rightarrow> jsnum"
  Date_parse :: "string \<Rightarrow> int option"
  toISOString :: "int \<Rightarrow> string"
  zoneOffset :: "string \<Rightarrow> (int \<Rightarrow> int) option"

text \<open>Subtraction of two numbers that are finite or \<open>+Infinity\<close>, as the comparator
  uses it: \<open>Infinity - Infinity\<close> is \<open>NaN\<close>.\<close>

fun jsSub :: "jsnum \<Rightarrow> jsnum \<Rightarrow> jsnum" where
  "jsSub (Num a) (Num b) = Num (a - b)"
| "jsSub NaN _ = NaN"
| "jsSub _ NaN = NaN"
| "jsSub PosInf PosInf = NaN"
| "jsSub NegInf NegInf = NaN"
| "jsSub PosInf _ = PosInf"
| "jsSub NegInf _ = NegInf"
| "jsSub (Num a) PosInf = NegInf"
| "jsSub (Num a) NegInf = PosInf"

text \<open>The time a comparator argument is sorted by:
  \<^verbatim>\<open>a.start && a.start.utc ? Date.parse(a.start.utc)
     : (a.start && a.start.local ? Date.parse(a.start.local) : Infinity)\<close>.\<close>

definition parseTime :: "builtins \<Rightarrow> string \<Rightarrow> jsnum" where
  "parseTime b s = (case Date_parse b s of None \<Rightarrow> NaN | Some t \<Rightarrow> Num (of_int t))"

definition eventTime :: "builtins \<Rightarrow> event \<Rightarrow> jsnum" where
  "eventTime b a =
     (case start a of
        None \<Rightarrow> PosInf
      | Some st \<Rightarrow>
          if truthy (utc st) then parseTime b (the (utc st))
          else if truthy (local st) then parseTime b (the (local st))
          else PosInf)"

definition eventDistance :: "event \<Rightarrow> jsnum" where
  "eventDistance a = (case distance a of Some d \<Rightarrow> Num d | None \<Rightarrow> PosInf)"

text \<open>The comparator passed to \<^verbatim>\<open>sort\<close> in \<^verbatim>\<open>sortEventsByTimeAndDistance\<close>.\<close>

definition compareEvents :: "builtins \<Rightarrow> event \<Rightarrow> event \<Rightarrow> jsnum" where
  "compareEvents b x y =
     (let aTime = eventTime b x; bTime = eventTime b y in
      if isFinite (Some aTime) \<and> isFinite (Some bTime) \<and> aTime \<noteq> bTime
      then jsSub aTime bTime
      else if \<not> (isFinite (Some aTime) \<and> isFinite (Some bTime)) \<and> isFinite (Some aTime)
      then Num (- 1)
      else if \<not> (isFinite (Some aTime) \<and> isFinite (Some bTime)) \<and> isFinite (Some bTime)
      then Num 1
      else jsSub (eventDistance x) (eventDistance y))"

text \<open>
  \<^verbatim>\<open>Array.prototype.sort\<close> is stable, and it reads a comparator result that is
  \<^verbatim>\<open>NaN\<close> as zero. For a comparator that is a consistent ordering the sorted array is
  therefore unique: each element stands after the elements that compare below it and
  before the later elements that compare equal to it. \<open>jsSort\<close> computes this array by
  insertion from the right. (That \<open>compareEvents\<close> is such an ordering is proved
  below.)
\<close>

fun jsPositive :: "jsnum \<Rightarrow> bool" where
  "jsPositive (Num v) = (0 < v)"
| "jsPositive PosInf = True"
| "jsPositive _ = False"

fun insertBy :: "('a \<Rightarrow> 'a \<Rightarrow> jsnum) \<Rightarrow> 'a \<Rightarrow> 'a list \<Rightarrow> 'a list" where
  "insertBy cmp x [] = [x]"
| "insertBy cmp x (y # ys) =
     (if jsPositive (cmp x y) then y # insertBy cmp x ys else x # y # ys)"

fun jsSort :: "('a \<Rightarrow> 'a \<Rightarrow> jsnum) \<Rightarrow> 'a list \<Rightarrow> 'a list" where
  "jsSort cmp [] = []"
| "jsSort cmp (x # xs) = insertBy cmp x (jsSort cmp xs)"

definition sortEventsByTimeAndDistance :: "builtins \<Rightarrow> event list \<Rightarrow> event list" where
  "sortEventsByTimeAndDistance b events = jsSort (compareEvents b) events"

text \<open>
  The order the sort is meant to establish, in the words of its description: by resolved
  start time (the UTC string if there is one, else the local string), an event without
  a resolved time after every event with one; among equal times, and among events
  without a time, by distance, an event without a distance last.
\<close>

definition resolvedTime :: "builtins \<Rightarrow> event \<Rightarrow> int option" where
  "resolvedTime b a =
     (case start a of
        None \<Rightarrow> None
      | Some st \<Rightarrow>
          if truthy (utc st) then Date_parse b (the (utc st))
          else if truthy (local st) then Date_parse b (the (local st))
          else None)"

fun distanceLe :: "real option \<Rightarrow> real option \<Rightarrow> bool" where
  "distanceLe (Some x) (Some y) = (x \<le> y)"
| "distanceLe (Some x) None = True"
| "distanceLe None (Some y) = False"
| "distanceLe None None = True"

fun timeThenDistance :: "int option \<Rightarrow> real option \<Rightarrow> int option \<Rightarrow> real option \<Rightarrow> bool" where
  "timeThenDistance (Some s) d (Some t) d' = (s < t \<or> (s = t \<and> distanceLe d d'))"
| "timeThenDistance (Some s) d None d' = True"
| "timeThenDistance None d (Some t) d' = False"
| "timeThenDistance None d None d' = distanceLe d d'"

definition inOrder :: "builtins \<Rightarrow> event \<Rightarrow> event \<Rightarrow> bool" where
  "inOrder b x y = timeThenDistance (resolvedTime b x) (distance x) (resolvedTime b y) (distance y)"

text \<open>
  A fragment of \<^verbatim>\<open>Date.parse\<close>, used for the examples only: the date-only form
  \<^verbatim>\<open>YYYY-MM-DD\<close> (UTC) and the forms \<^verbatim>\<open>YYYY-MM-DDTHH:mm:ss\<close>,
  \<^verbatim>\<open>YYYY-MM-DDTHH:mm:ss.sss\<close> with or without a final \<^verbatim>\<open>Z\<close> (ECMA-262, "Date
  Time String Format"). A date-time without \<^verbatim>\<open>Z\<close> is local time; the host of the
  examples runs in UTC.
\<close>

definition isoSeconds :: "string \<Rightarrow> int option" where
  "isoSeconds r =
     (case expectChar '':'' r of
        None \<Rightarrow> None
      | Some r1 \<Rightarrow>
          (case digitsN 2 r1 of
             None \<Rightarrow> None
           | Some (sec, r2) \<Rightarrow>
               (let fraction = (case expectChar ''.'' r2 of
                                  None \<Rightarrow> (0, r2)
                                | Some r3 \<Rightarrow>
                                    (case digitsN 3 r3 of
                                       None \<Rightarrow> (0, r2)
                                     | Some (ms, r4) \<Rightarrow> (ms, r4)))
                in if (snd fraction = ''Z'' \<or> snd fraction = []) \<and> sec \<le> 59
                   then Some (sec * 1000 + fst fraction) else None)))"

definition isoParse :: "string \<Rightarrow> int option" where
  "isoParse s =
     (case matchLocalPartsAt s of
        None \<Rightarrow> None
      | Some p \<Rightarrow>
          if \<not> (1 \<le> p_month p \<and> p_month p \<le> 12 \<and> 1 \<le> p_day p \<and> p_day p \<le> 31) then None
          else if length s = 10
          then TimeClip (MakeDay (p_year p) (p_month p - 1) (p_day p) * msPerDay)
          else
            (case (p_hour p, p_minute p, isoSeconds (drop 16 s)) of
               (Some h, Some mi, Some ms) \<Rightarrow>
                 if h \<le> 23 \<and> mi \<le> 59
                 then TimeClip (MakeDay (p_year p) (p_month p - 1) (p_day p) * msPerDay + MakeTime h mi 0 + ms)
                 else None
             | _ \<Rightarrow> None))"

subsection \<open>Query parameters\<close>

definition TICKETMASTER_MAX_RADIUS_MILES :: real where
  "TICKETMASTER_MAX_RADIUS_MILES = 150"

definition TICKETMASTER_DEFAULT_RADIUS :: real where
  "TICKETMASTER_DEFAULT_RADIUS = 50"

definition TICKETMASTER_DEFAULT_DAYS :: int where
  "TICKETMASTER_DEFAULT_DAYS = 14"

text \<open>
  \<^verbatim>\<open>Number.parseInt(value, 10)\<close> on a string: leading white space is skipped, a sign
  is read, then the longest run of decimal digits; no digit gives \<^verbatim>\<open>NaN\<close>. A
  value at or beyond \<open>2^1024 - 2^970\<close> rounds to an infinity. Below that the result is the
  double nearest to the integer; the model keeps the integer itself, which changes
  nothing in \<open>clampDays\<close>, whose bounds 1 and 31 are doubles and whose \<^verbatim>\<open>min\<close> and
  \<^verbatim>\<open>max\<close> commute with the (monotone) rounding.
\<close>

text \<open>The least integer that rounds to an infinity, \<open>2^1024 - 2^970\<close>, written out.\<close>

definition doubleOverflow :: int where
  "doubleOverflow =
     179769313486231580793728971405303415079934132710037826936173778980444968292764750946649017977587207096330286416692887910946555547851940402630657488671505820681908902000708383676273854845817711531764475730270069855571366959622842914819860834936475292719074168444365510704342711559699508093042880177904174497792"

fun digitsValue :: "int \<Rightarrow> string \<Rightarrow> int" where
  "digitsValue acc [] = acc"
| "digitsValue acc (c # cs) = digitsValue (acc * 10 + digitVal c) cs"

definition parseInt10 :: "string \<Rightarrow> jsnum" where
  "parseInt10 v =
     (let s = trimStart v;
          neg = (s \<noteq> [] \<and> hd s = CHR ''-'');
          s1 = (if s \<noteq> [] \<and> (hd s = CHR ''-'' \<or> hd s = CHR ''+'') then tl s else s);
          z = takeWhile isDigit s1
      in if z = [] then NaN
         else
           let n = digitsValue 0 z in
           if n \<ge> doubleOverflow then (if neg then NegInf else PosInf)
           else Num (of_int (if neg then - n else n)))"

definition clampDays :: "string option \<Rightarrow> int" where
  "clampDays value =
     (case value of
        None \<Rightarrow> TICKETMASTER_DEFAULT_DAYS
      | Some v \<Rightarrow>
          if v = [] then TICKETMASTER_DEFAULT_DAYS
          else
            (case parseInt10 v of
               Num n \<Rightarrow> min (max \<lfloor>n\<rfloor> 1) 31
             | _ \<Rightarrow> TICKETMASTER_DEFAULT_DAYS))"

definition parseNumberQuery :: "builtins \<Rightarrow> string option \<Rightarrow> jsnum option" where
  "parseNumberQuery b value =
     (case value of
        None \<Rightarrow> None
      | Some v \<Rightarrow>
          if v = [] then None
          else let num = Number_of b v in if isFinite (Some num) then Some num else None)"

text \<open>\<^verbatim>\<open>Number.parseFloat(undefined)\<close> is \<^verbatim>\<open>NaN\<close>; \<open>digits\<close> is 4 at the
  only call that matters here, so the factor is \<open>10 ^ digits\<close>.\<close>

definition normalizeCoordinate :: "builtins \<Rightarrow> string option \<Rightarrow> nat \<Rightarrow> jsnum option" where
  "normalizeCoordinate b value digits =
     (let num = (case value of None \<Rightarrow> NaN | Some v \<Rightarrow> Number_parseFloat b v) in
      case num of
        Num x \<Rightarrow> Some (roundScaled b x (10 ^ digits))
      | _ \<Rightarrow> None)"

text \<open>The radius and the day window as the handler of \<^verbatim>\<open>/api/shows\<close> computes them
  from \<^verbatim>\<open>req.query.radius\<close> and \<^verbatim>\<open>req.query.days\<close>.\<close>

definition resolveRadius :: "builtins \<Rightarrow> string option \<Rightarrow> real" where
  "resolveRadius b raw =
     (case parseNumberQuery b raw of
        Some (Num r) \<Rightarrow>
          if r > 0 then min (max r 1) TICKETMASTER_MAX_RADIUS_MILES
          else TICKETMASTER_DEFAULT_RADIUS
      | _ \<Rightarrow> TICKETMASTER_DEFAULT_RADIUS)"

definition resolveDays :: "string option \<Rightarrow> int" where
  "resolveDays raw =
     (let d = clampDays raw in if d = 0 then TICKETMASTER_DEFAULT_DAYS else d)"

subsection \<open>Errors\<close>

text \<open>An \<^verbatim>\<open>Error\<close> object with the properties the server sets and reads.\<close>

record js_error =
  err_message :: string
  err_status :: "int option"
  err_code :: "string option"
  err_requestUrl :: "string option"

definition RangeError :: js_error where
  "RangeError = \<lparr>err_message = ''Invalid time value'', err_status = None,
                   err_code = None, err_requestUrl = None\<rparr>"

subsection \<open>The structured-API adapter: one event\<close>

text \<open>The fields of a raw provider event that \<^verbatim>\<open>formatTicketmasterEvent\<close> reads for
  the identifier, the start and the genres. A classification carries the \<^verbatim>\<open>name\<close>
  of its segment, genre, sub-genre, type and sub-type, each \<open>None\<close> when the object or
  the name is missing or the name is not a string.\<close>

record tm_start =
  dateTime :: "string option"
  localDate :: "string option"
  localTime :: "string option"

record tm_classification =
  cls_segment :: "string option"
  cls_genre :: "string option"
  cls_subGenre :: "string option"
  cls_type :: "string option"
  cls_subType :: "string option"

record tm_raw_event =
  raw_id :: "string option"
  raw_name :: string
  raw_start :: "tm_start option"
  raw_distance :: "jsnum option"
  raw_classifications :: "tm_classification list"
  raw_extras :: string

text \<open>A \<^verbatim>\<open>Set\<close> keeps insertion order and ignores a value it already holds
  (compared as \<^verbatim>\<open>===\<close>, so by case).\<close>

definition setAdd :: "'a list \<Rightarrow> 'a \<Rightarrow> 'a list" where
  "setAdd st x = (if x \<in> set st then st else st @ [x])"

definition classificationNames :: "tm_classification \<Rightarrow> string list" where
  "classificationNames cls =
     filter (\<lambda>n. n \<noteq> [])
       (map (\<lambda>n. case n of Some v \<Rightarrow> trim v | None \<Rightarrow> [])
          [cls_segment cls, cls_genre cls, cls_subGenre cls, cls_type cls, cls_subType cls])"

definition classificationNameSet :: "tm_classification list \<Rightarrow> string list" where
  "classificationNameSet clss = foldl setAdd [] (concat (map classificationNames clss))"

text \<open>\<^verbatim>\<open>localDateTime\<close>, \<^verbatim>\<open>localIso\<close> and \<^verbatim>\<open>utcIso\<close>.
  \<^verbatim>\<open>new Date(start.dateTime).toISOString()\<close> throws a \<^verbatim>\<open>RangeError\<close> when the
  string does not parse.\<close>

definition localDateTime :: "tm_start \<Rightarrow> string option" where
  "localDateTime st =
     (if truthy (dateTime st) then dateTime st
      else if truthy (localDate st)
      then Some (the (localDate st)
                 @ (if truthy (localTime st) then ''T'' @ the (localTime st) else ''T00:00:00''))
      else None)"

definition localIso :: "builtins \<Rightarrow> tm_start \<Rightarrow> string option" where
  "localIso b st =
     (case localDateTime st of
        None \<Rightarrow> None
      | Some v \<Rightarrow>
          (case Date_parse b v of None \<Rightarrow> None | Some t \<Rightarrow> Some (toISOString b t)))"

definition utcIso :: "builtins \<Rightarrow> tm_start \<Rightarrow> js_error + string option" where
  "utcIso b st =
     (if truthy (dateTime st)
      then (case Date_parse b (the (dateTime st)) of
              None \<Rightarrow> Inl RangeError
            | Some t \<Rightarrow> Inr (Some (toISOString b t)))
      else Inr None)"

definition emptyStart :: tm_start where
  "emptyStart = \<lparr>dateTime = None, localDate = None, localTime = None\<rparr>"

text \<open>\<^verbatim>\<open>formatTicketmasterEvent\<close>: \<open>Inr None\<close> is the \<^verbatim>\<open>null\<close> returned for an
  event without an identifier.\<close>

definition formatTicketmasterEvent :: "builtins \<Rightarrow> tm_raw_event \<Rightarrow> js_error + event option" where
  "formatTicketmasterEvent b ev =
     (case raw_id ev of
        None \<Rightarrow> Inr None
      | Some i \<Rightarrow>
          let st = (case raw_start ev of Some v \<Rightarrow> v | None \<Rightarrow> emptyStart) in
          (case utcIso b st of
             Inl err \<Rightarrow> Inl err
           | Inr u \<Rightarrow>
               Inr (Some \<lparr>event_id = Some i,
                          name = raw_name ev,
                          start = Some \<lparr>local = localIso b st, utc = u\<rparr>,
                          source = Some ''ticketmaster'',
                          distance = (case raw_distance ev of Some (Num d) \<Rightarrow> Some d | _ \<Rightarrow> None),
                          genres = classificationNameSet (raw_classifications ev),
                          extras = raw_extras ev\<rparr>)))"

subsection \<open>The RSS adapter: start and genres of one item\<close>

text \<open>\<^verbatim>\<open>start: { local: startIso || null, utc: startIso || null }\<close>, where
  \<open>startIso\<close> is what the date extraction of \<^verbatim>\<open>parseRssEventItem\<close> found.\<close>

definition orNull :: "string option \<Rightarrow> string option" where
  "orNull v = (if truthy v then v else None)"

definition rssStart :: "string option \<Rightarrow> start_time" where
  "rssStart startIso = \<lparr>local = orNull startIso, utc = orNull startIso\<rparr>"

definition isWordChar :: "char \<Rightarrow> bool" where
  "isWordChar c =
     (isDigit c \<or> c \<in> set ''abcdefghijklmnopqrstuvwxyzABCDEFGHIJKLMNOPQRSTUVWXYZ_'')"

text \<open>One attempt of \<^verbatim>\<open>\d{4}[\/-]\d{2}[\/-]\d{2}\b\<close> at the head of a string.\<close>

definition matchDateLikeAt :: "string \<Rightarrow> bool" where
  "matchDateLikeAt s =
     (case digitsN 4 s of
        None \<Rightarrow> False
      | Some (y, r1) \<Rightarrow>
          (case expectChar ''/-'' r1 of
             None \<Rightarrow> False
           | Some r2 \<Rightarrow>
               (case digitsN 2 r2 of
                  None \<Rightarrow> False
                | Some (m, r3) \<Rightarrow>
                    (case expectChar ''/-'' r3 of
                       None \<Rightarrow> False
                     | Some r4 \<Rightarrow>
                         (case digitsN 2 r4 of
                            None \<Rightarrow> False
                          | Some (d, r5) \<Rightarrow>
                              (case r5 of [] \<Rightarrow> True | c # cs \<Rightarrow> \<not> isWordChar c))))))"

text \<open>The search for \<^verbatim>\<open>\b\d{4}[\/-]\d{2}[\/-]\d{2}\b\<close>; the flag tells whether the
  character before the current position is a word character.\<close>

fun dateLikeFrom :: "bool \<Rightarrow> string \<Rightarrow> bool" where
  "dateLikeFrom prevWord [] = False"
| "dateLikeFrom prevWord (c # cs) =
     ((\<not> prevWord \<and> matchDateLikeAt (c # cs)) \<or> dateLikeFrom (isWordChar c) cs)"

definition isCategoryDateLike :: "string \<Rightarrow> bool" where
  "isCategoryDateLike v = (if v = [] then False else dateLikeFrom False v)"

text \<open>\<^verbatim>\<open>toLowerCase\<close> on the code units below 256.\<close>

definition lowerChar :: "char \<Rightarrow> char" where
  "lowerChar c =
     (let n = (of_char c :: nat) in
      if (65 \<le> n \<and> n \<le> 90) \<or> (192 \<le> n \<and> n \<le> 222 \<and> n \<noteq> 215)
      then char_of (n + 32) else c)"

definition toLowerCase :: "string \<Rightarrow> string" where
  "toLowerCase s = map lowerChar s"

text \<open>The \<^verbatim>\<open>genres\<close> of an RSS event: the categories that do not look like dates,
  and for the source \<^verbatim>\<open>smithsonian\<close> the entry \<^verbatim>\<open>Museum\<close> unless one is there
  already.\<close>

definition rssGenres :: "string \<Rightarrow> string list \<Rightarrow> string list" where
  "rssGenres sourceId categoriesForGenres =
     (let gs = filter (\<lambda>category. \<not> isCategoryDateLike category) categoriesForGenres in
      if sourceId = ''smithsonian''
      then (if ''museum'' \<in> set (map (\<lambda>genre. toLowerCase (trim genre)) gs)
            then gs else gs @ [''Museum''])
      else gs)"

subsection \<open>The iCal date-time parser\<close>

text \<open>The groups of
  \<^verbatim>\<open>^(\d{4})(\d{2})(\d{2})(?:T(\d{2})(\d{2})(\d{2})?)?(Z|[+-]\d{4})?$\<close>.
  No choice in this expression can succeed in two ways, so one pass from the left
  decides the match.\<close>

record ical_match =
  m_year :: int
  m_month :: int
  m_day :: int
  m_hour :: "int option"
  m_minute :: "int option"
  m_second :: "int option"
  m_zone :: string

text \<open>The group \<^verbatim>\<open>(?:T(\d{2})(\d{2})(\d{2})?)?\<close>: hour, minute, optional second
  and the rest of the string.\<close>

definition icalTimeGroup :: "string \<Rightarrow> (int \<times> int \<times> int option \<times> string) option" where
  "icalTimeGroup s =
     (case expectChar ''T'' s of
        None \<Rightarrow> None
      | Some r1 \<Rightarrow>
          (case digitsN 2 r1 of
             None \<Rightarrow> None
           | Some (h, r2) \<Rightarrow>
               (case digitsN 2 r2 of
                  None \<Rightarrow> None
                | Some (mi, r3) \<Rightarrow>
                    (case digitsN 2 r3 of
                       None \<Rightarrow> Some (h, mi, None, r3)
                     | Some (sec, r4) \<Rightarrow> Some (h, mi, Some sec, r4)))))"

text \<open>The group \<^verbatim>\<open>(Z|[+-]\d{4})?\<close>: the token (empty when the group does not
  take part) and the rest of the string.\<close>

definition icalZoneGroup :: "string \<Rightarrow> string \<times> string" where
  "icalZoneGroup s =
     (case expectChar ''Z'' s of
        Some r \<Rightarrow> (''Z'', r)
      | None \<Rightarrow>
          (case expectChar ''+-'' s of
             None \<Rightarrow> ([], s)
           | Some r1 \<Rightarrow>
               (case digitsN 4 r1 of
                  None \<Rightarrow> ([], s)
                | Some (v, r2) \<Rightarrow> (take 5 s, r2))))"

definition matchIcalDateTime :: "string \<Rightarrow> ical_match option" where
  "matchIcalDateTime s =
     (case digitsN 4 s of
        None \<Rightarrow> None
      | Some (y, r1) \<Rightarrow>
          (case digitsN 2 r1 of
             None \<Rightarrow> None
           | Some (m, r2) \<Rightarrow>
               (case digitsN 2 r2 of
                  None \<Rightarrow> None
                | Some (d, r3) \<Rightarrow>
                    (let tg = icalTimeGroup r3;
                         r4 = (case tg of None \<Rightarrow> r3 | Some (h, mi, sec, r) \<Rightarrow> r);
                         zg = icalZoneGroup r4
                     in if snd zg = []
                        then Some \<lparr>m_year = y, m_month = m, m_day = d,
                                   m_hour = map_option fst tg,
                                   m_minute = map_option (fst \<circ> snd) tg,
                                   m_second = (case tg of None \<Rightarrow> None
                                               | Some (h, mi, sec, r) \<Rightarrow> sec),
                                   m_zone = fst zg\<rparr>
                        else None))))"

text \<open>
  \<^verbatim>\<open>zonedTimeToUtcIso\<close>. The wall-clock fields are first read as if they were UTC
  (\<open>utcDate\<close>); the formatter renders that instant in the zone, and
  \<^verbatim>\<open>Date.UTC\<close> of the rendered fields is \<open>utcDate\<close> plus the zone's offset at
  \<open>utcDate\<close>. Every exception inside is caught and gives \<^verbatim>\<open>null\<close>. The result
  is the instant whose \<^verbatim>\<open>toISOString\<close> the source returns.
\<close>

definition zonedTimeToUtcIso ::
  "builtins \<Rightarrow> int \<Rightarrow> int \<Rightarrow> int \<Rightarrow> int \<Rightarrow> int \<Rightarrow> int \<Rightarrow> string \<Rightarrow> int option" where
  "zonedTimeToUtcIso b year month day hour minute second timeZone =
     (case Date_UTC year (month - 1) day hour minute second of
        None \<Rightarrow> None
      | Some utcDate \<Rightarrow>
          (case zoneOffset b timeZone of
             None \<Rightarrow> None
           | Some off \<Rightarrow>
               let tzDateMs = utcDate + off utcDate;
                   offsetMs = tzDateMs - utcDate
               in TimeClip (utcDate - offsetMs)))"

text \<open>\<^verbatim>\<open>new Date(t).toISOString()\<close> outside a \<^verbatim>\<open>try\<close>: an invalid time
  value throws.\<close>

definition isoOrThrow :: "int option \<Rightarrow> js_error + int option" where
  "isoOrThrow t = (case t of None \<Rightarrow> Inl RangeError | Some v \<Rightarrow> Inr (Some v))"

definition parseIcalDateTime ::
  "builtins \<Rightarrow> string \<Rightarrow> string option \<Rightarrow> string option \<Rightarrow> js_error + int option" where
  "parseIcalDateTime b rawValue tzid fallbackTimeZone =
     (let value = trim rawValue in
      if rawValue = [] \<or> value = [] then Inr None
      else
        (case matchIcalDateTime value of
           None \<Rightarrow> Inr None
         | Some m \<Rightarrow>
             let year = m_year m; month = m_month m; day = m_day m;
                 hour = (case m_hour m of Some h \<Rightarrow> h | None \<Rightarrow> 0);
                 minute = (case m_minute m of Some mi \<Rightarrow> mi | None \<Rightarrow> 0);
                 second = (case m_second m of Some sec \<Rightarrow> sec | None \<Rightarrow> 0);
                 zoneToken = m_zone m
             in
               if m_hour m = None then isoOrThrow (Date_UTC year (month - 1) day 0 0 0)
               else if zoneToken = ''Z''
               then isoOrThrow (Date_UTC year (month - 1) day hour minute second)
               else if zoneToken \<noteq> []
               then
                 (let sign = (if hd zoneToken = CHR ''-'' then - 1 else 1 :: int);
                      offsetHours = (case digitsN 2 (drop 1 zoneToken) of
                                       Some (v, r) \<Rightarrow> v | None \<Rightarrow> 0);
                      offsetMinutes = (case digitsN 2 (drop 3 zoneToken) of
                                         Some (v, r) \<Rightarrow> v | None \<Rightarrow> 0);
                      offsetTotalMinutes = sign * (offsetHours * 60 + offsetMinutes)
                  in case Date_UTC year (month - 1) day hour minute second of
                       None \<Rightarrow> Inl RangeError
                     | Some t \<Rightarrow> isoOrThrow (TimeClip (t - offsetTotalMinutes * 60 * 1000)))
               else
                 (let zone = (if truthy tzid then tzid else fallbackTimeZone) in
                  if truthy zone
                  then Inr (zonedTimeToUtcIso b year month day hour minute second (the zone))
                  else isoOrThrow (Date_UTC year (month - 1) day hour minute second))))"

text \<open>
  What a correct conversion is: the instant \<open>r\<close> is the wall-clock time \<open>w\<close> of a
  zone (\<open>w\<close> being the wall-clock fields read as UTC) when adding the zone's offset at
  \<open>r\<close> to \<open>r\<close> gives \<open>w\<close>.
\<close>

definition isWallClockOf :: "(int \<Rightarrow> int) \<Rightarrow> int \<Rightarrow> int \<Rightarrow> bool" where
  "isWallClockOf off w r = (r + off r = w)"

text \<open>The zone \<^verbatim>\<open>America/New_York\<close> during 2024: five hours behind UTC, four
  hours from 2024-03-10T07:00:00Z to 2024-11-03T06:00:00Z.\<close>

definition newYork2024 :: "int \<Rightarrow> int" where
  "newYork2024 t =
     (if 1710054000000 \<le> t \<and> t < 1730613600000 then - 14400000 else - 18000000)"

subsection \<open>The structured-API adapter: segments\<close>

record segment =
  seg_key :: string
  seg_description :: string

definition TICKETMASTER_SEGMENTS :: "segment list" where
  "TICKETMASTER_SEGMENTS =
     [\<lparr>seg_key = ''music'', seg_description = ''Live music''\<rparr>,
      \<lparr>seg_key = ''comedy'', seg_description = ''Comedy''\<rparr>]"

text \<open>What \<^verbatim>\<open>fetchTicketmasterSegment\<close> returns (its \<^verbatim>\<open>summary\<close> and the
  formatted events), and an entry of \<^verbatim>\<open>segmentSummaries\<close>.\<close>

record segment_info =
  si_key :: string
  si_description :: string
  si_status :: int
  si_total :: nat
  si_requestUrl :: string
  si_rawTotal :: "int option"

record segment_result =
  sr_events :: "event list"
  sr_summary :: segment_info

record segment_summary =
  ss_key :: string
  ss_description :: string
  ss_ok :: bool
  ss_status :: "int option"
  ss_total :: "nat option"
  ss_error :: "string option"
  ss_requestUrl :: "string option"
  ss_rawTotal :: "int option"

text \<open>An element of \<^verbatim>\<open>segmentResults\<close>: the segment's result, or the pair that the
  \<^verbatim>\<open>catch\<close> of the segment's promise builds.\<close>

datatype segment_outcome = SegmentFailed js_error segment | SegmentDone segment_result

definition failedSummary :: "js_error \<Rightarrow> segment \<Rightarrow> segment_summary" where
  "failedSummary err seg =
     \<lparr>ss_key = seg_key seg, ss_description = seg_description seg, ss_ok = False,
      ss_status = err_status err, ss_total = None,
      ss_error = Some (if err_message err \<noteq> [] then err_message err else ''Request failed''),
      ss_requestUrl = (if truthy (err_requestUrl err) then err_requestUrl err else None),
      ss_rawTotal = None\<rparr>"

definition doneSummary :: "segment_info \<Rightarrow> segment_summary" where
  "doneSummary si =
     \<lparr>ss_key = si_key si, ss_description = si_description si, ss_ok = True,
      ss_status = Some (si_status si), ss_total = Some (si_total si), ss_error = None,
      ss_requestUrl = Some (si_requestUrl si), ss_rawTotal = si_rawTotal si\<rparr>"

text \<open>The inner loop: \<open>combined\<close> is the \<^verbatim>\<open>Map\<close>, an association list in
  insertion order; an event without an identifier is skipped, a key already present is
  left alone.\<close>

fun addEvents :: "(string \<times> event) list \<Rightarrow> event list \<Rightarrow> (string \<times> event) list" where
  "addEvents combined [] = combined"
| "addEvents combined (ev # evs) =
     (case event_id ev of
        None \<Rightarrow> addEvents combined evs
      | Some k \<Rightarrow>
          if map_of combined k = None then addEvents (combined @ [(k, ev)]) evs
          else addEvents combined evs)"

record merge_state =
  combined :: "(string \<times> event) list"
  segmentSummaries :: "segment_summary list"
  successful :: bool

text \<open>The outer loop over \<^verbatim>\<open>segmentResults\<close>.\<close>

fun mergeSegments :: "merge_state \<Rightarrow> segment_outcome list \<Rightarrow> merge_state" where
  "mergeSegments st [] = st"
| "mergeSegments st (SegmentFailed err seg # rest) =
     mergeSegments (st\<lparr>segmentSummaries := segmentSummaries st @ [failedSummary err seg]\<rparr>) rest"
| "mergeSegments st (SegmentDone res # rest) =
     mergeSegments
       \<lparr>combined = addEvents (combined st) (sr_events res),
        segmentSummaries = segmentSummaries st @ [doneSummary (sr_summary res)],
        successful = True\<rparr> rest"

definition initialMerge :: merge_state where
  "initialMerge = \<lparr>combined = [], segmentSummaries = [], successful = False\<rparr>"

text \<open>The payload of the adapter. (\<open>generatedAt\<close>, \<open>radiusMiles\<close> and
  \<open>lookaheadDays\<close> are left out: the aggregation does not read them.)\<close>

record tm_payload =
  tp_source :: string
  tp_cached :: bool
  tp_events :: "event list"
  tp_segments :: "segment_summary list"

record tm_result =
  tr_payload :: tm_payload
  tr_cached :: bool

text \<open>
  What the world outside delivers to one request: the configured API key, the cached
  payload of the structured-API adapter if a fresh one parses, the outcome of the
  request for each segment, and the outcome of the fetch function of every other kind of
  source (\<^verbatim>\<open>fetchDcImprovEvents\<close>, \<^verbatim>\<open>fetchBlackCatEvents\<close>,
  \<^verbatim>\<open>fetchIcalEvents\<close>, \<^verbatim>\<open>fetchRssEvents\<close>).
\<close>

record feed_result =
  fr_events :: "event list"
  fr_cached :: bool

record datasource =
  src_id :: string
  src_name :: string
  src_type :: string
  src_enabled :: bool
  src_segments :: "segment list"

record world =
  TICKETMASTER_API_KEY :: string
  cachedPayload :: "tm_payload option"
  fetchTicketmasterSegment :: "segment \<Rightarrow> js_error + segment_result"
  fetchFeed :: "datasource \<Rightarrow> js_error + feed_result"

definition apiKeyMissing :: js_error where
  "apiKeyMissing =
     \<lparr>err_message = ''Ticketmaster API key missing'', err_status = Some 500,
      err_code = Some ''ticketmaster_api_key_missing'', err_requestUrl = None\<rparr>"

definition fetchFailed :: js_error where
  "fetchFailed =
     \<lparr>err_message = ''Ticketmaster fetch failed'', err_status = Some 502,
      err_code = Some ''ticketmaster_fetch_failed'', err_requestUrl = None\<rparr>"

text \<open>The part of \<^verbatim>\<open>fetchTicketmasterEvents\<close> after the cache: fetch every
  segment, merge, and fail when no segment succeeded. (The error thrown then also
  carries \<^verbatim>\<open>segmentSummaries\<close>; nothing in the server reads them from it.)\<close>

definition segmentOutcome :: "world \<Rightarrow> segment \<Rightarrow> segment_outcome" where
  "segmentOutcome w seg =
     (case fetchTicketmasterSegment w seg of
        Inl err \<Rightarrow> SegmentFailed err seg
      | Inr res \<Rightarrow> SegmentDone res)"

definition combineSegments :: "segment_outcome list \<Rightarrow> js_error + tm_result" where
  "combineSegments segmentResults =
     (let st = mergeSegments initialMerge segmentResults in
      if \<not> successful st then Inl fetchFailed
      else Inr \<lparr>tr_payload = \<lparr>tp_source = ''ticketmaster'', tp_cached = False,
                               tp_events = map snd (combined st),
                               tp_segments = segmentSummaries st\<rparr>,
                tr_cached = False\<rparr>)"

definition fetchTicketmasterEvents :: "world \<Rightarrow> segment list \<Rightarrow> bool \<Rightarrow> js_error + tm_result" where
  "fetchTicketmasterEvents w segments allowCache =
     (if TICKETMASTER_API_KEY w = [] then Inl apiKeyMissing
      else
        let resolvedSegments = (if segments \<noteq> [] then segments else TICKETMASTER_SEGMENTS) in
        (case (if allowCache then cachedPayload w else None) of
           Some parsed \<Rightarrow> Inr \<lparr>tr_payload = parsed\<lparr>tp_cached := True\<rparr>, tr_cached = True\<rparr>
         | None \<Rightarrow> combineSegments (map (segmentOutcome w) resolvedSegments)))"

text \<open>
  The end of \<^verbatim>\<open>fetchTicketmasterSegment\<close>, after the response has been read:
  \<^verbatim>\<open>events.map(event => formatTicketmasterEvent(event, segment.key)).filter(Boolean)\<close>
  and the result with its summary. The first event whose formatting throws ends the
  call; an event formatted to \<^verbatim>\<open>null\<close> is dropped.
\<close>

fun formatAll :: "builtins \<Rightarrow> tm_raw_event list \<Rightarrow> js_error + event list" where
  "formatAll b [] = Inr []"
| "formatAll b (ev # evs) =
     (case formatTicketmasterEvent b ev of
        Inl err \<Rightarrow> Inl err
      | Inr formatted \<Rightarrow>
          (case formatAll b evs of
             Inl err \<Rightarrow> Inl err
           | Inr rest \<Rightarrow> Inr ((case formatted of None \<Rightarrow> [] | Some e \<Rightarrow> [e]) @ rest)))"

definition formatSegment ::
  "builtins \<Rightarrow> segment \<Rightarrow> int \<Rightarrow> string \<Rightarrow> int option \<Rightarrow> tm_raw_event list
     \<Rightarrow> js_error + segment_result" where
  "formatSegment b seg status url rawTotal events =
     (case formatAll b events of
        Inl err \<Rightarrow> Inl err
      | Inr formatted \<Rightarrow>
          Inr \<lparr>sr_events = formatted,
               sr_summary = \<lparr>si_key = seg_key seg, si_description = seg_description seg,
                              si_status = status, si_total = length formatted,
                              si_requestUrl = url, si_rawTotal = rawTotal\<rparr>\<rparr>)"

subsection \<open>The orchestrator\<close>

text \<open>What a handler's \<^verbatim>\<open>fetch\<close> returns, and what \<^verbatim>\<open>runDatasourceFetch\<close>
  makes of it.\<close>

record handler_result =
  hr_events :: "event list"
  hr_cached :: bool
  hr_segments :: "segment_summary list"

record source_summary =
  sum_id :: string
  sum_name :: string
  sum_type :: string
  sum_ok :: bool
  sum_total :: "nat option"
  sum_status :: "int option"
  sum_error :: "string option"

record fetch_outcome =
  fo_source :: datasource
  fo_ok :: bool
  fo_events :: "event list"
  fo_segments :: "segment_summary list"
  fo_cached :: bool
  fo_summary :: source_summary
  fo_error :: "js_error option"

text \<open>\<^verbatim>\<open>DATASOURCE_HANDLERS[source.type].fetch\<close>: \<open>None\<close> when the type has no
  handler or its handler has no \<^verbatim>\<open>fetch\<close> (as for the type \<^verbatim>\<open>json\<close>). Every
  handler passes the events it fetched through \<open>applyWeekdayCutoff\<close>.\<close>

definition handlerFetch :: "world \<Rightarrow> datasource \<Rightarrow> (js_error + handler_result) option" where
  "handlerFetch w src =
     (if src_type src = ''ticketmaster''
      then Some (case fetchTicketmasterEvents w (src_segments src) True of
                   Inl err \<Rightarrow> Inl err
                 | Inr res \<Rightarrow>
                     Inr \<lparr>hr_events = applyWeekdayCutoff (tp_events (tr_payload res)),
                          hr_cached = tr_cached res,
                          hr_segments = tp_segments (tr_payload res)\<rparr>)
      else if src_type src \<in> set [''dcimprov'', ''blackcat'', ''ical'', ''rss'']
      then Some (case fetchFeed w src of
                   Inl err \<Rightarrow> Inl err
                 | Inr res \<Rightarrow>
                     Inr \<lparr>hr_events = applyWeekdayCutoff (fr_events res),
                          hr_cached = fr_cached res,
                          hr_segments = []\<rparr>)
      else None)"

definition runDatasourceFetch :: "world \<Rightarrow> datasource \<Rightarrow> fetch_outcome" where
  "runDatasourceFetch w src =
     (case handlerFetch w src of
        None \<Rightarrow>
          \<lparr>fo_source = src, fo_ok = False, fo_events = [], fo_segments = [], fo_cached = False,
           fo_summary = \<lparr>sum_id = src_id src, sum_name = src_name src, sum_type = src_type src,
                         sum_ok = False, sum_total = None, sum_status = None,
                         sum_error = Some ''unsupported_source_type''\<rparr>,
           fo_error = None\<rparr>
      | Some (Inr res) \<Rightarrow>
          \<lparr>fo_source = src, fo_ok = True, fo_events = hr_events res,
           fo_segments = hr_segments res, fo_cached = hr_cached res,
           fo_summary = \<lparr>sum_id = src_id src, sum_name = src_name src, sum_type = src_type src,
                         sum_ok = True, sum_total = Some (length (hr_events res)),
                         sum_status = None, sum_error = None\<rparr>,
           fo_error = None\<rparr>
      | Some (Inl err) \<Rightarrow>
          \<lparr>fo_source = src, fo_ok = False, fo_events = [], fo_segments = [], fo_cached = False,
           fo_summary = \<lparr>sum_id = src_id src, sum_name = src_name src, sum_type = src_type src,
                         sum_ok = False, sum_total = None, sum_status = err_status err,
                         sum_error = Some (if err_message err \<noteq> [] then err_message err
                                           else ''Request failed'')\<rparr>,
           fo_error = Some err\<rparr>)"

text \<open>The loop \<^verbatim>\<open>results.forEach\<close> of the handler of \<^verbatim>\<open>/api/shows\<close>.\<close>

record collect_state =
  cs_events :: "event list"
  cs_sourceSummaries :: "source_summary list"
  cs_anySuccess :: bool
  cs_segments :: "segment_summary list option"
  cs_cached :: bool

definition collectStep :: "collect_state \<Rightarrow> fetch_outcome \<Rightarrow> collect_state" where
  "collectStep st result =
     (let st1 = st\<lparr>cs_sourceSummaries := cs_sourceSummaries st @ [fo_summary result]\<rparr> in
      if fo_ok result
      then st1\<lparr>cs_anySuccess := True,
               cs_cached := (cs_cached st \<and> fo_cached result),
               cs_events := cs_events st @ fo_events result,
               cs_segments := (if cs_segments st = None \<and> fo_segments result \<noteq> []
                               then Some (fo_segments result) else cs_segments st)\<rparr>
      else st1\<lparr>cs_cached := False\<rparr>)"

definition initialCollect :: collect_state where
  "initialCollect = \<lparr>cs_events = [], cs_sourceSummaries = [], cs_anySuccess = False,
                      cs_segments = None, cs_cached = True\<rparr>"

definition collectResults :: "fetch_outcome list \<Rightarrow> collect_state" where
  "collectResults results = foldl collectStep initialCollect results"

subsection \<open>The endpoint\<close>

record query =
  q_lat :: "string option"
  q_latitude :: "string option"
  q_lon :: "string option"
  q_longitude :: "string option"
  q_radius :: "string option"
  q_days :: "string option"

record shows_payload =
  sp_source :: string
  sp_cached :: bool
  sp_radiusMiles :: real
  sp_lookaheadDays :: int
  sp_events :: "event list"
  sp_sources :: "source_summary list"
  sp_segments :: "segment_summary list option"

datatype body =
    ErrorBody string
  | ErrorWithSources string "source_summary list"
  | Shows shows_payload

record response =
  res_status :: nat
  res_body :: body

text \<open>\<^verbatim>\<open>a ?? b\<close>.\<close>

definition nullish :: "'a option \<Rightarrow> 'a option \<Rightarrow> 'a option" where
  "nullish a c = (case a of None \<Rightarrow> c | Some v \<Rightarrow> Some v)"

text \<open>The handler of \<^verbatim>\<open>GET /api/shows\<close>; \<open>sources\<close> is what
  \<^verbatim>\<open>loadDatasources\<close> delivers. \<^verbatim>\<open>res.json\<close> answers with status 200.\<close>

definition apiShows :: "builtins \<Rightarrow> world \<Rightarrow> datasource list \<Rightarrow> query \<Rightarrow> response" where
  "apiShows b w sources q =
     (let rawLat = nullish (q_lat q) (q_latitude q);
          rawLon = nullish (q_lon q) (q_longitude q);
          latitude = normalizeCoordinate b rawLat 4;
          longitude = normalizeCoordinate b rawLon 4
      in
      if \<not> isFinite latitude \<or> \<not> isFinite longitude
      then \<lparr>res_status = 400, res_body = ErrorBody ''missing_coordinates''\<rparr>
      else
        let radiusMiles = resolveRadius b (q_radius q);
            lookaheadDays = resolveDays (q_days q);
            enabledSources = filter src_enabled sources
        in
        if enabledSources = []
        then \<lparr>res_status = 500, res_body = ErrorBody ''no_enabled_sources''\<rparr>
        else
          let results = map (runDatasourceFetch w) enabledSources;
              st = collectResults results
          in
          if \<not> cs_anySuccess st
          then
            (if list_ex (\<lambda>result. (case fo_error result of
                                     None \<Rightarrow> False
                                   | Some err \<Rightarrow>
                                       err_code err = Some ''ticketmaster_api_key_missing''))
                  results
             then \<lparr>res_status = 500,
                   res_body = ErrorWithSources ''ticketmaster_api_key_missing''
                                (cs_sourceSummaries st)\<rparr>
             else \<lparr>res_status = 502,
                   res_body = ErrorWithSources ''datasource_fetch_failed''
                                (cs_sourceSummaries st)\<rparr>)
          else
            \<lparr>res_status = 200,
             res_body = Shows
               \<lparr>sp_source = (if length enabledSources = 1 then src_id (hd enabledSources)
                              else ''mixed''),
                sp_cached = cs_cached st,
                sp_radiusMiles = radiusMiles,
                sp_lookaheadDays = lookaheadDays,
                sp_events = sortEventsByTimeAndDistance b
                              (applyWeekdayCutoff (cs_events st)),
                sp_sources = cs_sourceSummaries st,
                sp_segments = cs_segments st\<rparr>\<rparr>)"

subsection \<open>Sample inputs\<close>

text \<open>
  The examples below run the model on concrete inputs. \<open>sampleBuiltins\<close> gives the
  built-ins at the strings the examples use: dates in the ISO format, the coordinates
  and radii \<^verbatim>\<open>38.9\<close>, \<^verbatim>\<open>-77.03\<close> and \<^verbatim>\<open>200\<close> (all of which survive
  rounding to four decimals), and the zones \<^verbatim>\<open>America/New_York\<close> and
  \<^verbatim>\<open>UTC\<close>.
\<close>

definition sampleNumber :: "string \<Rightarrow> jsnum" where
  "sampleNumber s =
     (if s = ''38.9'' then Num 38.9
      else if s = ''-77.03'' then Num (- 77.03)
      else if s = ''200'' then Num 200
      else if s = ''0.5'' then Num 0.5
      else NaN)"

definition sampleIso :: "int \<Rightarrow> string" where
  "sampleIso t =
     (if t = 1704412800000 then ''2024-01-05T00:00:00.000Z''
      else if t = 1704481200000 then ''2024-01-05T19:00:00.000Z''
      else if t = 1704225600000 then ''2024-01-02T20:00:00.000Z''
      else if t = 1704240000000 then ''2024-01-03T00:00:00.000Z''
      else ''1970-01-01T00:00:00.000Z'')"

definition sampleZone :: "string \<Rightarrow> (int \<Rightarrow> int) option" where
  "sampleZone z =
     (if z = ''America/New_York'' then Some newYork2024
      else if z = ''UTC'' then Some (\<lambda>t. 0)
      else None)"

definition sampleBuiltins :: builtins where
  "sampleBuiltins =
     \<lparr>Number_parseFloat = sampleNumber, Number_of = sampleNumber,
      roundScaled = (\<lambda>x f. Num x), Date_parse = isoParse, toISOString = sampleIso,
      zoneOffset = sampleZone\<rparr>"

definition sampleEvent :: "string \<Rightarrow> string \<Rightarrow> string option \<Rightarrow> string option \<Rightarrow> event" where
  "sampleEvent i src l u =
     \<lparr>event_id = Some i, name = i, start = Some \<lparr>local = l, utc = u\<rparr>,
      source = (if src = [] then None else Some src), distance = None, genres = [],
      extras = []\<rparr>"

text \<open>A Tuesday afternoon and the same Tuesday's evening, from the structured API and
  from an RSS source; 2024-01-02 was a Tuesday.\<close>

definition tmMatinee :: event where
  "tmMatinee = sampleEvent ''tm-1'' ''ticketmaster'' (Some ''2024-01-02T15:00:00.000Z'') None"

definition tmEvening :: event where
  "tmEvening = sampleEvent ''tm-2'' ''ticketmaster'' (Some ''2024-01-02T19:00:00.000Z'') None"

definition rssMatinee :: event where
  "rssMatinee = sampleEvent ''rss-1'' ''smithsonian'' (Some ''2024-01-02T15:00:00.000Z'') None"

definition anonMatinee :: event where
  "anonMatinee = sampleEvent ''x-1'' [] (Some ''2024-01-02T15:00:00.000Z'') None"

definition sampleInfo :: "string \<Rightarrow> nat \<Rightarrow> segment_info" where
  "sampleInfo k n =
     \<lparr>si_key = k, si_description = k, si_status = 200, si_total = n,
      si_requestUrl = ''https://app.ticketmaster.com/discovery/v2/events.json'',
      si_rawTotal = None\<rparr>"

definition http429 :: js_error where
  "http429 = \<lparr>err_message = ''Too many requests'', err_status = Some 429,
                err_code = None, err_requestUrl = None\<rparr>"

text \<open>A world in which the music segment delivers the two Tuesday events, the comedy
  segment is refused, the RSS source \<^verbatim>\<open>smithsonian\<close> delivers its Tuesday event and
  every other feed times out.\<close>

definition sampleWorld :: world where
  "sampleWorld =
     \<lparr>TICKETMASTER_API_KEY = ''key'',
      cachedPayload = None,
      fetchTicketmasterSegment =
        (\<lambda>seg. if seg_key seg = ''music''
               then Inr \<lparr>sr_events = [tmMatinee, tmEvening],
                         sr_summary = sampleInfo ''music'' 2\<rparr>
               else Inl http429),
      fetchFeed =
        (\<lambda>src. if src_id src = ''smithsonian''
               then Inr \<lparr>fr_events = [rssMatinee], fr_cached = True\<rparr>
               else Inl \<lparr>err_message = [], err_status = None, err_code = None,
                         err_requestUrl = None\<rparr>)\<rparr>"

definition sampleSource :: "string \<Rightarrow> string \<Rightarrow> datasource" where
  "sampleSource i t =
     \<lparr>src_id = i, src_name = i, src_type = t, src_enabled = True, src_segments = []\<rparr>"

definition sampleSources :: "datasource list" where
  "sampleSources =
     [sampleSource ''ticketmaster'' ''ticketmaster'',
      sampleSource ''blackcat'' ''blackcat'',
      sampleSource ''smithsonian'' ''rss'']"

definition sampleQuery :: "string option \<Rightarrow> string option \<Rightarrow> query" where
  "sampleQuery r d =
     \<lparr>q_lat = Some ''38.9'', q_latitude = None, q_lon = Some ''-77.03'', q_longitude = None,
      q_radius = r, q_days = d\<rparr>"

subsection \<open>Notions used to state the properties, and further sample inputs\<close>

text \<open>The date and time that the cutoff reads from an event, and whether that date is
  a Monday, Tuesday, Wednesday, Thursday or Friday.\<close>

definition startParts :: "event \<Rightarrow> local_parts option" where
  "startParts e = parseEventLocalParts (getEventStartValue e)"

definition onWeekday :: "local_parts \<Rightarrow> bool" where
  "onWeekday p =
     (case Date_UTC (p_year p) (p_month p - 1) (p_day p) 0 0 0 of
        None \<Rightarrow> False
      | Some t \<Rightarrow> 1 \<le> getUTCDay t \<and> getUTCDay t \<le> 5)"

text \<open>The events a source's fetch function delivered, before any filter: none when the
  fetch failed or the source's type has no fetch function.\<close>

definition fetchedEvents :: "world \<Rightarrow> datasource \<Rightarrow> event list" where
  "fetchedEvents w src =
     (if src_type src = ''ticketmaster''
      then (case fetchTicketmasterEvents w (src_segments src) True of
              Inl err \<Rightarrow> []
            | Inr res \<Rightarrow> tp_events (tr_payload res))
      else if src_type src \<in> set [''dcimprov'', ''blackcat'', ''ical'', ''rss'']
      then (case fetchFeed w src of Inl err \<Rightarrow> [] | Inr res \<Rightarrow> fr_events res)
      else [])"

text \<open>The request has usable coordinates; the sources the request dispatches to.\<close>

definition coordinatesOk :: "builtins \<Rightarrow> query \<Rightarrow> bool" where
  "coordinatesOk b q =
     (isFinite (normalizeCoordinate b (nullish (q_lat q) (q_latitude q)) 4)
      \<and> isFinite (normalizeCoordinate b (nullish (q_lon q) (q_longitude q)) 4))"

definition dispatched :: "datasource list \<Rightarrow> datasource list" where
  "dispatched sources = filter src_enabled sources"

text \<open>Events for the examples of the sort: a UTC start on 3 January 2024, one on
  1 January, a start known only as a local string (as the page-scraping adapters emit
  it), and no start at all.\<close>

definition utcJan3 :: event where
  "utcJan3 = sampleEvent ''a'' ''ticketmaster'' None (Some ''2024-01-03'')"

definition utcJan1 :: event where
  "utcJan1 = sampleEvent ''b'' ''ticketmaster'' None (Some ''2024-01-01'')"

definition localJan1 :: event where
  "localJan1 = sampleEvent ''c'' ''blackcat'' (Some ''2024-01-01T20:00:00'') None"

definition noStart :: event where
  "noStart = sampleEvent ''d'' ''smithsonian'' None None"

text \<open>The outcomes of the dispatched fetches, and whether an outcome failed for want of
  the API key.\<close>

definition dispatchResults :: "world \<Rightarrow> datasource list \<Rightarrow> fetch_outcome list" where
  "dispatchResults w sources = map (runDatasourceFetch w) (dispatched sources)"

definition keyMissing :: "fetch_outcome \<Rightarrow> bool" where
  "keyMissing r =
     (case fo_error r of
        None \<Rightarrow> False
      | Some err \<Rightarrow> err_code err = Some ''ticketmaster_api_key_missing'')"











text \<open>A provider event that has a local date but no \<^verbatim>\<open>dateTime\<close>, and one whose
  classification names differ only in case.\<close>

definition dateOnlyRaw :: tm_raw_event where
  "dateOnlyRaw =
     \<lparr>raw_id = Some ''G5vYZ9'', raw_name = ''Date to be announced'',
      raw_start = Some \<lparr>dateTime = None, localDate = Some ''2024-01-05'', localTime = None\<rparr>,
      raw_distance = None, raw_classifications = [], raw_extras = []\<rparr>"

definition datedRaw :: tm_raw_event where
  "datedRaw =
     \<lparr>raw_id = Some ''G5vYZ8'', raw_name = ''Evening show'',
      raw_start = Some \<lparr>dateTime = Some ''2024-01-05T19:00:00Z'',
                         localDate = Some ''2024-01-05'', localTime = Some ''14:00:00''\<rparr>,
      raw_distance = None, raw_classifications = [], raw_extras = []\<rparr>"

definition rockRaw :: tm_raw_event where
  "rockRaw =
     \<lparr>raw_id = Some ''G5vYZ7'', raw_name = ''Rock night'', raw_start = None,
      raw_distance = None,
      raw_classifications =
        [\<lparr>cls_segment = Some ''Music'', cls_genre = Some ''Rock'', cls_subGenre = Some ''rock'',
          cls_type = None, cls_subType = Some ''Music ''\<rparr>],
      raw_extras = []\<rparr>"

text \<open>
  Two shows in Washington, DC, on Tuesday 2 January 2024, as the provider describes
  them: a matinee at 15:00 and an evening show at 19:00 local time (five hours behind
  UTC), each with its \<^verbatim>\<open>localDate\<close>, \<^verbatim>\<open>localTime\<close> and UTC \<^verbatim>\<open>dateTime\<close>;
  the events \<^verbatim>\<open>formatTicketmasterEvent\<close> makes of them; and a world in which the
  music segment delivers the two.
\<close>

definition matineeRaw :: tm_raw_event where
  "matineeRaw =
     \<lparr>raw_id = Some ''vvG1-matinee'', raw_name = ''Tuesday matinee'',
      raw_start = Some \<lparr>dateTime = Some ''2024-01-02T20:00:00Z'',
                         localDate = Some ''2024-01-02'', localTime = Some ''15:00:00''\<rparr>,
      raw_distance = None, raw_classifications = [], raw_extras = []\<rparr>"

definition eveningRaw :: tm_raw_event where
  "eveningRaw =
     \<lparr>raw_id = Some ''vvG1-evening'', raw_name = ''Tuesday evening'',
      raw_start = Some \<lparr>dateTime = Some ''2024-01-03T00:00:00Z'',
                         localDate = Some ''2024-01-02'', localTime = Some ''19:00:00''\<rparr>,
      raw_distance = None, raw_classifications = [], raw_extras = []\<rparr>"

definition matineeShow :: event where
  "matineeShow =
     \<lparr>event_id = Some ''vvG1-matinee'', name = ''Tuesday matinee'',
      start = Some \<lparr>local = Some ''2024-01-02T20:00:00.000Z'',
                     utc = Some ''2024-01-02T20:00:00.000Z''\<rparr>,
      source = Some ''ticketmaster'', distance = None, genres = [], extras = []\<rparr>"

definition eveningShow :: event where
  "eveningShow =
     \<lparr>event_id = Some ''vvG1-evening'', name = ''Tuesday evening'',
      start = Some \<lparr>local = Some ''2024-01-03T00:00:00.000Z'',
                     utc = Some ''2024-01-03T00:00:00.000Z''\<rparr>,
      source = Some ''ticketmaster'', distance = None, genres = [], extras = []\<rparr>"

definition dcWorld :: world where
  "dcWorld =
     \<lparr>TICKETMASTER_API_KEY = ''key'',
      cachedPayload = None,
      fetchTicketmasterSegment =
        (\<lambda>seg. if seg_key seg = ''music''
               then formatSegment sampleBuiltins seg 200
                      ''https://app.ticketmaster.com/discovery/v2/events.json'' (Some 2)
                      [matineeRaw, eveningRaw]
               else Inl http429),
      fetchFeed = (\<lambda>src. Inl http429)\<rparr>"


section \<open>Properties\<close>

subsection \<open>The date functions at known dates\<close>

text \<open>The epoch, a leap day, the last second of a year, a month and a day that carry
  over, a two-digit year, and the weekdays of 1 January 2024 (a Monday) and of
  6 January 2024 (a Saturday).\<close>

lemma Date_UTC_known_dates:
  "Date_UTC 1970 0 1 0 0 0 = Some 0"
  "Date_UTC 2000 1 29 0 0 0 = Some 951782400000"
  "Date_UTC 2024 11 31 23 59 59 = Some 1735689599000"
  "Date_UTC 2023 12 1 0 0 0 = Some 1704067200000"
  "Date_UTC 2024 2 0 0 0 0 = Some 1709164800000"
  "Date_UTC 99 0 1 0 0 0 = Some 915148800000"
  "Date_UTC 1900 0 1 0 0 0 = Some (- 2208988800000)"
  "getUTCDay 1704067200000 = 1"
  "getUTCDay 1704499200000 = 6"
  by code_simp+

lemma getUTCDay_range: "0 \<le> getUTCDay t \<and> getUTCDay t \<le> 6"
  by (simp add: getUTCDay_def)

lemma getUTCDay_next: "getUTCDay (t + msPerDay) = (getUTCDay t + 1) mod 7"
proof -
  have "(t + msPerDay) div msPerDay = t div msPerDay + 1"
    by (simp add: msPerDay_def)
  then show ?thesis
    unfolding getUTCDay_def by (simp add: mod_simps add.commute add.left_commute)
qed

lemma MakeDay_next: "MakeDay y m (d + 1) = MakeDay y m d + 1"
  by (simp add: MakeDay_def Let_def)

subsection \<open>The weekday cutoff in the aggregated answer\<close>

lemma parseEventLocalParts_Nil: "parseEventLocalParts [] = None"
  by (simp add: parseEventLocalParts_def)

lemma isWeekdayBeforeCutoff_iff:
  "isWeekdayBeforeCutoff e \<longleftrightarrow>
     \<not> (truthy (source e) \<and> source e \<noteq> Some ''ticketmaster'')
     \<and> (\<exists>p h mi. startParts e = Some p \<and> onWeekday p
            \<and> p_hour p = Some h \<and> p_minute p = Some mi
            \<and> (h < 16 \<or> (h = 16 \<and> mi < 30)))"
  by (auto simp: isWeekdayBeforeCutoff_def startParts_def onWeekday_def Let_def
        parseEventLocalParts_Nil WEEKDAY_CUTOFF_HOUR_def WEEKDAY_CUTOFF_MINUTE_def
      split: option.splits)

lemma set_insertBy: "set (insertBy cmp x xs) = insert x (set xs)"
  by (induction xs) auto

lemma set_jsSort: "set (jsSort cmp xs) = set xs"
  by (induction xs) (auto simp: set_insertBy)

lemma mset_insertBy: "mset (insertBy cmp x xs) = add_mset x (mset xs)"
  by (induction xs) auto

lemma mset_jsSort: "mset (jsSort cmp xs) = mset xs"
  by (induction xs) (auto simp: mset_insertBy)

lemma collect_events:
  "cs_events (foldl collectStep st rs) = cs_events st @ concat (map fo_events (filter fo_ok rs))"
  by (induction rs arbitrary: st) (auto simp: collectStep_def Let_def)

lemma collect_summaries:
  "cs_sourceSummaries (foldl collectStep st rs) = cs_sourceSummaries st @ map fo_summary rs"
  by (induction rs arbitrary: st) (auto simp: collectStep_def Let_def)

lemma collect_anySuccess:
  "cs_anySuccess (foldl collectStep st rs) = (cs_anySuccess st \<or> list_ex fo_ok rs)"
  by (induction rs arbitrary: st) (auto simp: collectStep_def Let_def)

lemma collectResults_events:
  "cs_events (collectResults rs) = concat (map fo_events (filter fo_ok rs))"
  by (simp add: collectResults_def collect_events initialCollect_def)

lemma collectResults_summaries:
  "cs_sourceSummaries (collectResults rs) = map fo_summary rs"
  by (simp add: collectResults_def collect_summaries initialCollect_def)

lemma collectResults_anySuccess:
  "cs_anySuccess (collectResults rs) = list_ex fo_ok rs"
  by (simp add: collectResults_def collect_anySuccess initialCollect_def)

lemma applyWeekdayCutoff_Nil: "applyWeekdayCutoff [] = []"
  by (simp add: applyWeekdayCutoff_def)

lemma set_applyWeekdayCutoff:
  "set (applyWeekdayCutoff evs) = {e \<in> set evs. \<not> isWeekdayBeforeCutoff e}"
  by (simp add: applyWeekdayCutoff_def)

lemma run_events:
  "fo_events (runDatasourceFetch w src) = applyWeekdayCutoff (fetchedEvents w src)"
  by (simp add: runDatasourceFetch_def handlerFetch_def fetchedEvents_def
        applyWeekdayCutoff_Nil split: sum.splits)

lemma run_failed_events:
  "\<not> fo_ok (runDatasourceFetch w src) \<Longrightarrow> fo_events (runDatasourceFetch w src) = []"
  by (auto simp: runDatasourceFetch_def split: option.splits sum.splits)

lemma collected_set:
  "set (cs_events (collectResults (map (runDatasourceFetch w) srcs)))
     = {e \<in> (\<Union>s\<in>set srcs. set (fetchedEvents w s)). \<not> isWeekdayBeforeCutoff e}"
proof -
  have "set (concat (map fo_events (filter fo_ok (map (runDatasourceFetch w) srcs))))
          = (\<Union>s\<in>set srcs. set (fo_events (runDatasourceFetch w s)))"
    using run_failed_events by fastforce
  then show ?thesis
    by (auto simp: collectResults_events run_events set_applyWeekdayCutoff)
qed

lemma apiShows_Shows:
  assumes "res_body (apiShows b w sources q) = Shows P"
  shows "coordinatesOk b q \<and> dispatched sources \<noteq> []
         \<and> list_ex fo_ok (map (runDatasourceFetch w) (dispatched sources))
         \<and> res_status (apiShows b w sources q) = 200
         \<and> sp_events P = sortEventsByTimeAndDistance b (applyWeekdayCutoff
              (cs_events (collectResults (map (runDatasourceFetch w) (dispatched sources)))))
         \<and> sp_sources P = map fo_summary (map (runDatasourceFetch w) (dispatched sources))
         \<and> sp_radiusMiles P = resolveRadius b (q_radius q)
         \<and> sp_lookaheadDays P = resolveDays (q_days q)"
  using assms
  by (auto simp: apiShows_def Let_def coordinatesOk_def dispatched_def
        collectResults_anySuccess collectResults_summaries split: if_splits)


lemma startParts_source_update: "startParts (e\<lparr>source := v\<rparr>) = startParts e"
  by (simp add: startParts_def getEventStartValue_def)

text \<open>
  C10. The cutoff predicate never holds for an event whose \<open>source\<close> is a non-empty
  string other than \<^verbatim>\<open>ticketmaster\<close>; for an event whose \<open>source\<close> is missing or
  empty it decides exactly as for the same event with the source \<^verbatim>\<open>ticketmaster\<close>;
  and whenever it holds, the start string of the event parses to a date with an hour
  and a minute.
\<close>

theorem cutoff_exempts_named_sources_only:
  "(truthy (source e) \<and> source e \<noteq> Some ''ticketmaster'' \<longrightarrow> \<not> isWeekdayBeforeCutoff e)
   \<and> (\<not> truthy (source e) \<longrightarrow>
        isWeekdayBeforeCutoff e = isWeekdayBeforeCutoff (e\<lparr>source := Some ''ticketmaster''\<rparr>))
   \<and> (isWeekdayBeforeCutoff e \<longrightarrow>
        (\<exists>p h mi. parseEventLocalParts (getEventStartValue e) = Some p
                   \<and> p_hour p = Some h \<and> p_minute p = Some mi))"
proof (intro conjI impI)
  assume "truthy (source e) \<and> source e \<noteq> Some ''ticketmaster''"
  then show "\<not> isWeekdayBeforeCutoff e"
    by (simp add: isWeekdayBeforeCutoff_iff)
next
  assume "\<not> truthy (source e)"
  then show "isWeekdayBeforeCutoff e
               = isWeekdayBeforeCutoff (e\<lparr>source := Some ''ticketmaster''\<rparr>)"
    by (simp add: isWeekdayBeforeCutoff_iff startParts_source_update)
next
  assume "isWeekdayBeforeCutoff e"
  then show "\<exists>p h mi. parseEventLocalParts (getEventStartValue e) = Some p
                       \<and> p_hour p = Some h \<and> p_minute p = Some mi"
    unfolding isWeekdayBeforeCutoff_iff startParts_def by blast
qed

theorem cutoff_exempts_named_sources_only_witness:
  "\<not> truthy (source anonMatinee)
   \<and> isWeekdayBeforeCutoff anonMatinee
   \<and> isWeekdayBeforeCutoff (anonMatinee\<lparr>source := Some ''ticketmaster''\<rparr>)
   \<and> \<not> isWeekdayBeforeCutoff rssMatinee
   \<and> (\<exists>p h mi. parseEventLocalParts (getEventStartValue anonMatinee) = Some p
                \<and> p_hour p = Some h \<and> p_minute p = Some mi)"
proof -
  have a: "isWeekdayBeforeCutoff anonMatinee"
    by code_simp
  have b: "\<not> truthy (source anonMatinee)"
    by code_simp
  have c: "truthy (source rssMatinee) \<and> source rssMatinee \<noteq> Some ''ticketmaster''"
    by code_simp
  show ?thesis
    using cutoff_exempts_named_sources_only [of anonMatinee]
      cutoff_exempts_named_sources_only [of rssMatinee] a b c
    by blast
qed

text \<open>
  What the endpoint does with the predicate: in every answer of \<^verbatim>\<open>/api/shows\<close> that
  carries events, the events are exactly the fetched events of the dispatched sources
  for which \<open>isWeekdayBeforeCutoff\<close> is false.
\<close>

lemma shows_events_pass_the_predicate:
  assumes "res_body (apiShows b w sources q) = Shows P"
  shows "set (sp_events P)
           = {e \<in> (\<Union>s\<in>set (dispatched sources). set (fetchedEvents w s)).
                \<not> isWeekdayBeforeCutoff e}"
proof -
  have ev: "sp_events P = sortEventsByTimeAndDistance b (applyWeekdayCutoff
              (cs_events (collectResults (map (runDatasourceFetch w) (dispatched sources)))))"
    using apiShows_Shows [OF assms] by blast
  show ?thesis
    unfolding ev sortEventsByTimeAndDistance_def set_jsSort set_applyWeekdayCutoff collected_set
    by blast
qed

text \<open>
  C1, at an input where the code departs from it. The cutoff reads weekday, hour and
  minute from \<open>start.local\<close>, and \<^verbatim>\<open>formatTicketmasterEvent\<close> fills \<open>start.local\<close>
  with \<^verbatim>\<open>toISOString\<close> of the provider's \<^verbatim>\<open>dateTime\<close>, which is the UTC time and
  not the venue's local time. Two shows of the structured API in Washington, DC, on
  Tuesday 2 January 2024: the matinee at 15:00 local time (20:00 UTC) should be
  excluded and is returned; the evening show at 19:00 local time (00:00 UTC on
  Wednesday) should be retained and is excluded.
\<close>

theorem weekday_cutoff_reads_utc_time:
  "formatTicketmasterEvent sampleBuiltins matineeRaw = Inr (Some matineeShow)
   \<and> formatTicketmasterEvent sampleBuiltins eveningRaw = Inr (Some eveningShow)
   \<and> parseEventLocalParts ''2024-01-02T15:00:00''
       = Some \<lparr>p_year = 2024, p_month = 1, p_day = 2, p_hour = Some 15, p_minute = Some 0\<rparr>
   \<and> parseEventLocalParts ''2024-01-02T19:00:00''
       = Some \<lparr>p_year = 2024, p_month = 1, p_day = 2, p_hour = Some 19, p_minute = Some 0\<rparr>
   \<and> onWeekday \<lparr>p_year = 2024, p_month = 1, p_day = 2, p_hour = Some 15, p_minute = Some 0\<rparr>
   \<and> source matineeShow = Some ''ticketmaster''
   \<and> source eveningShow = Some ''ticketmaster''
   \<and> getEventStartValue matineeShow = ''2024-01-02T20:00:00.000Z''
   \<and> getEventStartValue eveningShow = ''2024-01-03T00:00:00.000Z''
   \<and> \<not> isWeekdayBeforeCutoff matineeShow
   \<and> isWeekdayBeforeCutoff eveningShow
   \<and> (case res_body (apiShows sampleBuiltins dcWorld
                        [sampleSource ''ticketmaster'' ''ticketmaster''] (sampleQuery None None)) of
         Shows P \<Rightarrow> sp_events P = [matineeShow]
       | _ \<Rightarrow> False)"
  by code_simp

theorem weekday_cutoff_reads_utc_time_witness:
  "\<not> isWeekdayBeforeCutoff matineeShow \<and> isWeekdayBeforeCutoff eveningShow"
  using weekday_cutoff_reads_utc_time by blast

subsection \<open>The global sort\<close>

lemma eventTime_finite: "isFinite (Some (eventTime b x)) \<longleftrightarrow> resolvedTime b x \<noteq> None"
  by (auto simp: eventTime_def resolvedTime_def parseTime_def split: option.splits)

lemma eventTime_Some: "resolvedTime b x = Some t \<Longrightarrow> eventTime b x = Num (of_int t)"
  by (auto simp: eventTime_def resolvedTime_def parseTime_def split: option.splits if_splits)

lemma distance_positive:
  "jsPositive (jsSub (eventDistance x) (eventDistance y)) \<longleftrightarrow> \<not> distanceLe (distance x) (distance y)"
  by (cases "distance x"; cases "distance y") (auto simp: eventDistance_def)

lemma compareEvents_positive:
  "jsPositive (compareEvents b x y) \<longleftrightarrow> \<not> inOrder b x y"
proof (cases "resolvedTime b x")
  case None
  then have nx: "\<not> isFinite (Some (eventTime b x))" by (simp add: eventTime_finite)
  show ?thesis
  proof (cases "resolvedTime b y")
    case None
    then have "\<not> isFinite (Some (eventTime b y))" by (simp add: eventTime_finite)
    with nx show ?thesis
      using None \<open>resolvedTime b x = None\<close>
      by (simp add: compareEvents_def Let_def inOrder_def distance_positive)
  next
    case (Some t)
    then have "isFinite (Some (eventTime b y))" by (simp add: eventTime_finite)
    with nx show ?thesis
      using Some \<open>resolvedTime b x = None\<close>
      by (simp add: compareEvents_def Let_def inOrder_def)
  qed
next
  case (Some s)
  then have fx: "isFinite (Some (eventTime b x))" by (simp add: eventTime_finite)
  show ?thesis
  proof (cases "resolvedTime b y")
    case None
    then have "\<not> isFinite (Some (eventTime b y))" by (simp add: eventTime_finite)
    with fx show ?thesis
      using None Some by (simp add: compareEvents_def Let_def inOrder_def)
  next
    case (Some t)
    then have "isFinite (Some (eventTime b y))" by (simp add: eventTime_finite)
    with fx show ?thesis
      using Some \<open>resolvedTime b x = Some s\<close>
      by (auto simp: compareEvents_def Let_def inOrder_def distance_positive eventTime_Some)
  qed
qed

lemma distanceLe_total: "distanceLe d d' \<or> distanceLe d' d"
  by (cases d; cases d') auto

lemma distanceLe_trans: "distanceLe d d' \<Longrightarrow> distanceLe d' d'' \<Longrightarrow> distanceLe d d''"
  by (cases d; cases d'; cases d'') auto

lemma inOrder_total: "inOrder b x y \<or> inOrder b y x"
  using distanceLe_total [of "distance x" "distance y"]
  by (cases "resolvedTime b x"; cases "resolvedTime b y") (auto simp: inOrder_def)

lemma inOrder_trans: "inOrder b x y \<Longrightarrow> inOrder b y z \<Longrightarrow> inOrder b x z"
  by (cases "resolvedTime b x"; cases "resolvedTime b y"; cases "resolvedTime b z")
     (auto simp: inOrder_def intro: distanceLe_trans)

lemma sorted_insertBy:
  assumes pos: "\<And>x y. jsPositive (cmp x y) \<longleftrightarrow> \<not> le x y"
    and total: "\<And>x y. le x y \<or> le y x"
    and trans: "\<And>x y z. le x y \<Longrightarrow> le y z \<Longrightarrow> le x z"
  shows "sorted_wrt le xs \<Longrightarrow> sorted_wrt le (insertBy cmp x xs)"
proof (induction xs)
  case Nil
  show ?case by simp
next
  case (Cons y ys)
  show ?case
  proof (cases "jsPositive (cmp x y)")
    case True
    then have "le y x" using pos total by blast
    moreover have "sorted_wrt le (insertBy cmp x ys)" using Cons by simp
    moreover have "\<forall>z\<in>set ys. le y z" using Cons.prems by simp
    ultimately show ?thesis using True by (simp add: set_insertBy)
  next
    case False
    then have xy: "le x y" using pos by blast
    have "\<forall>z\<in>set ys. le y z" using Cons.prems by simp
    then have "\<forall>z\<in>set ys. le x z" using xy trans by blast
    then show ?thesis using False xy Cons.prems by simp
  qed
qed

lemma sorted_jsSort:
  assumes pos: "\<And>x y. jsPositive (cmp x y) \<longleftrightarrow> \<not> le x y"
    and total: "\<And>x y. le x y \<or> le y x"
    and trans: "\<And>x y z. le x y \<Longrightarrow> le y z \<Longrightarrow> le x z"
  shows "sorted_wrt le (jsSort cmp xs)"
proof (induction xs)
  case Nil
  show ?case by simp
next
  case (Cons x xs)
  then show ?case
    using sorted_insertBy [of cmp le, OF pos total trans] by simp
qed

text \<open>
  C2 (as the code has it). The sort returns a permutation of its input that is in order:
  by resolved start time (read from the UTC string if the event has one, else from the
  local string), ascending, an event without a resolved time after every event with
  one; among events with equal times, and among events without a time, by distance
  ascending, an event without a distance last. Events with a UTC string are not placed
  before events that have only a local string: both are ordered by the time value.
\<close>

theorem sort_orders_by_time_then_distance:
  "sorted_wrt (inOrder b) (sortEventsByTimeAndDistance b events)
   \<and> mset (sortEventsByTimeAndDistance b events) = mset events"
  unfolding sortEventsByTimeAndDistance_def
  using sorted_jsSort [of "compareEvents b" "inOrder b" events]
    compareEvents_positive inOrder_total inOrder_trans mset_jsSort
  by blast

theorem sort_orders_by_time_then_distance_witness:
  "sortEventsByTimeAndDistance sampleBuiltins [utcJan3, utcJan1, noStart]
     = [utcJan1, utcJan3, noStart]
   \<and> sorted_wrt (inOrder sampleBuiltins) [utcJan1, utcJan3, noStart]"
proof -
  have "sortEventsByTimeAndDistance sampleBuiltins [utcJan3, utcJan1, noStart]
          = [utcJan1, utcJan3, noStart]"
    by code_simp
  then show ?thesis
    using sort_orders_by_time_then_distance [of sampleBuiltins "[utcJan3, utcJan1, noStart]"]
    by simp
qed

text \<open>An event with a UTC time on 3 January is sorted after an event that has only a
  local time, on 1 January: events with a UTC time do not all come first.\<close>

theorem utc_not_before_local_counterexample:
  "truthy (utc (the (start utcJan3)))
   \<and> \<not> truthy (utc (the (start localJan1))) \<and> truthy (local (the (start localJan1)))
   \<and> sortEventsByTimeAndDistance sampleBuiltins [utcJan3, localJan1] = [localJan1, utcJan3]"
  by code_simp

subsection \<open>The answer of the endpoint\<close>




lemma apiShows_ok:
  "coordinatesOk b q \<Longrightarrow> list_ex fo_ok (dispatchResults w sources) \<Longrightarrow>
   apiShows b w sources q =
     \<lparr>res_status = 200,
      res_body = Shows
        \<lparr>sp_source = (if length (dispatched sources) = 1 then src_id (hd (dispatched sources))
                       else ''mixed''),
         sp_cached = cs_cached (collectResults (dispatchResults w sources)),
         sp_radiusMiles = resolveRadius b (q_radius q),
         sp_lookaheadDays = resolveDays (q_days q),
         sp_events = sortEventsByTimeAndDistance b
                       (applyWeekdayCutoff (cs_events (collectResults (dispatchResults w sources)))),
         sp_sources = map fo_summary (dispatchResults w sources),
         sp_segments = cs_segments (collectResults (dispatchResults w sources))\<rparr>\<rparr>"
  by (auto simp: apiShows_def Let_def coordinatesOk_def dispatched_def dispatchResults_def
        collectResults_anySuccess collectResults_summaries list_ex_iff filter_empty_conv)

lemma keyMissing_fun:
  "(\<lambda>result. case fo_error result of None \<Rightarrow> False
             | Some err \<Rightarrow> err_code err = Some ''ticketmaster_api_key_missing'') = keyMissing"
  by (rule ext) (simp add: keyMissing_def)

lemma apiShows_failed:
  "coordinatesOk b q \<Longrightarrow> dispatched sources \<noteq> [] \<Longrightarrow>
   \<not> list_ex fo_ok (dispatchResults w sources) \<Longrightarrow>
   apiShows b w sources q =
     (if list_ex keyMissing (dispatchResults w sources)
      then \<lparr>res_status = 500,
            res_body = ErrorWithSources ''ticketmaster_api_key_missing''
                         (map fo_summary (dispatchResults w sources))\<rparr>
      else \<lparr>res_status = 502,
            res_body = ErrorWithSources ''datasource_fetch_failed''
                         (map fo_summary (dispatchResults w sources))\<rparr>)"
  unfolding apiShows_def Let_def
  by (simp add: coordinatesOk_def dispatched_def dispatchResults_def keyMissing_fun
        collectResults_anySuccess collectResults_summaries)





lemma clampDays_range: "1 \<le> clampDays d \<and> clampDays d \<le> 31"
  by (auto simp: clampDays_def TICKETMASTER_DEFAULT_DAYS_def split: option.splits jsnum.splits)

lemma resolveDays_clampDays: "resolveDays d = clampDays d"
  using clampDays_range [of d] by (simp add: resolveDays_def Let_def)

text \<open>
  C4 (as the code has it). The radius of a request is 50 when the parameter is missing,
  empty, not a finite number or not positive, and otherwise the parameter's value
  clamped into 1..150. The day window is 14 when the parameter is missing, empty or
  does not start with an integer, and otherwise that integer clamped into 1..31. An
  answer with events reports these two values.
\<close>

theorem radius_and_days_normalized:
  "1 \<le> resolveRadius b r \<and> resolveRadius b r \<le> 150
   \<and> (r = None \<or> r = Some [] \<or> (\<exists>v. r = Some v \<and> \<not> isFinite (Some (Number_of b v)))
        \<longrightarrow> resolveRadius b r = 50)
   \<and> (\<forall>v x. r = Some v \<and> v \<noteq> [] \<and> Number_of b v = Num x
        \<longrightarrow> resolveRadius b r = (if 0 < x then min (max x 1) 150 else 50))
   \<and> 1 \<le> resolveDays d \<and> resolveDays d \<le> 31
   \<and> (d = None \<or> d = Some [] \<or> (\<exists>v. d = Some v \<and> \<not> isFinite (Some (parseInt10 v)))
        \<longrightarrow> resolveDays d = 14)
   \<and> (\<forall>v n. d = Some v \<and> v \<noteq> [] \<and> parseInt10 v = Num n
        \<longrightarrow> resolveDays d = min (max \<lfloor>n\<rfloor> 1) 31)
   \<and> (\<forall>P. res_body (apiShows b w sources q) = Shows P
        \<longrightarrow> sp_radiusMiles P = resolveRadius b (q_radius q)
            \<and> sp_lookaheadDays P = resolveDays (q_days q))"
proof (intro conjI impI allI)
  show "1 \<le> resolveRadius b r" "resolveRadius b r \<le> 150"
    by (auto simp: resolveRadius_def TICKETMASTER_MAX_RADIUS_MILES_def
          TICKETMASTER_DEFAULT_RADIUS_def split: option.splits jsnum.splits)
next
  assume "r = None \<or> r = Some [] \<or> (\<exists>v. r = Some v \<and> \<not> isFinite (Some (Number_of b v)))"
  then show "resolveRadius b r = 50"
    by (auto simp: resolveRadius_def parseNumberQuery_def Let_def TICKETMASTER_DEFAULT_RADIUS_def
          split: option.splits jsnum.splits)
next
  fix v x
  assume "r = Some v \<and> v \<noteq> [] \<and> Number_of b v = Num x"
  then show "resolveRadius b r = (if 0 < x then min (max x 1) 150 else 50)"
    by (simp add: resolveRadius_def parseNumberQuery_def Let_def
          TICKETMASTER_DEFAULT_RADIUS_def TICKETMASTER_MAX_RADIUS_MILES_def)
next
  show "1 \<le> resolveDays d" "resolveDays d \<le> 31"
    using clampDays_range [of d] by (simp_all add: resolveDays_clampDays)
next
  assume "d = None \<or> d = Some [] \<or> (\<exists>v. d = Some v \<and> \<not> isFinite (Some (parseInt10 v)))"
  then show "resolveDays d = 14"
    unfolding resolveDays_clampDays
    by (auto simp: clampDays_def TICKETMASTER_DEFAULT_DAYS_def split: jsnum.splits)
next
  fix v n
  assume "d = Some v \<and> v \<noteq> [] \<and> parseInt10 v = Num n"
  then show "resolveDays d = min (max \<lfloor>n\<rfloor> 1) 31"
    unfolding resolveDays_clampDays by (simp add: clampDays_def)
next
  fix P
  assume a: "res_body (apiShows b w sources q) = Shows P"
  show "sp_radiusMiles P = resolveRadius b (q_radius q)"
    using apiShows_Shows [OF a] by blast
  show "sp_lookaheadDays P = resolveDays (q_days q)"
    using apiShows_Shows [OF a] by blast
qed

theorem radius_and_days_normalized_witness:
  "Number_of sampleBuiltins ''200'' = Num 200
   \<and> resolveRadius sampleBuiltins (Some ''200'') = 150
   \<and> resolveRadius sampleBuiltins None = 50
   \<and> parseInt10 ''7'' = Num 7 \<and> resolveDays (Some ''7'') = 7
   \<and> resolveDays (Some ''soon'') = 14"
proof -
  have a: "Some ''200'' = Some ''200'' \<and> ''200'' \<noteq> [] \<and> Number_of sampleBuiltins ''200'' = Num 200"
    by code_simp
  have c: "Some ''7'' = Some ''7'' \<and> ''7'' \<noteq> [] \<and> parseInt10 ''7'' = Num 7"
    by code_simp
  have e: "\<not> isFinite (Some (parseInt10 ''soon''))"
    by code_simp
  note r1 = radius_and_days_normalized [where b = sampleBuiltins and r = "Some ''200''",
      THEN conjunct2, THEN conjunct2, THEN conjunct2, THEN conjunct1, rule_format, OF a]
  note r2 = radius_and_days_normalized [where b = sampleBuiltins and r = None,
      THEN conjunct2, THEN conjunct2, THEN conjunct1, rule_format]
  note d1 = radius_and_days_normalized [where d = "Some ''7''",
      THEN conjunct2, THEN conjunct2, THEN conjunct2, THEN conjunct2, THEN conjunct2,
      THEN conjunct2, THEN conjunct2, THEN conjunct1, rule_format, OF c]
  note d2 = radius_and_days_normalized [where d = "Some ''soon''",
      THEN conjunct2, THEN conjunct2, THEN conjunct2, THEN conjunct2, THEN conjunct2,
      THEN conjunct2, THEN conjunct1, rule_format]
  have "resolveRadius sampleBuiltins (Some ''200'') = 150"
    using r1 by simp
  moreover have "resolveRadius sampleBuiltins None = 50"
    using r2 by simp
  moreover have "resolveDays (Some ''7'') = 7"
    using d1 by simp
  moreover have "resolveDays (Some ''soon'') = 14"
    using d2 e by blast
  ultimately show ?thesis
    using a c by simp
qed

text \<open>A request for 45 days, a value inside 1..60, is answered for 31 days.\<close>

theorem days_45_counterexample:
  "clampDays (Some ''45'') = 31
   \<and> (case res_body (apiShows sampleBuiltins sampleWorld sampleSources
                       (sampleQuery None (Some ''45''))) of
         Shows P \<Rightarrow> sp_lookaheadDays P = 31
       | _ \<Rightarrow> False)"
  by code_simp

subsection \<open>The merge of the structured-API segments\<close>



















subsection \<open>Failures of single providers\<close>

lemma run_failed:
  assumes "handlerFetch w s = Some (Inl err)"
  shows "\<not> fo_ok (runDatasourceFetch w s) \<and> fo_events (runDatasourceFetch w s) = []
         \<and> \<not> sum_ok (fo_summary (runDatasourceFetch w s))
         \<and> sum_error (fo_summary (runDatasourceFetch w s))
             = Some (if err_message err \<noteq> [] then err_message err else ''Request failed'')
         \<and> sum_status (fo_summary (runDatasourceFetch w s)) = err_status err
         \<and> sum_id (fo_summary (runDatasourceFetch w s)) = src_id s"
  using assms by (simp add: runDatasourceFetch_def)

lemma run_summary_id: "sum_id (fo_summary (runDatasourceFetch w s)) = src_id s"
  by (simp add: runDatasourceFetch_def split: option.splits sum.splits)

lemma run_summary_ok: "sum_ok (fo_summary (runDatasourceFetch w s)) = fo_ok (runDatasourceFetch w s)"
  by (simp add: runDatasourceFetch_def split: option.splits sum.splits)

lemma ok_events_all:
  "concat (map fo_events (filter fo_ok (map (runDatasourceFetch w) srcs)))
     = concat (map fo_events (map (runDatasourceFetch w) srcs))"
  by (induction srcs) (auto simp: run_failed_events)

lemma cutoff_idem: "applyWeekdayCutoff (applyWeekdayCutoff evs) = applyWeekdayCutoff evs"
  by (simp add: applyWeekdayCutoff_def)

lemma cutoff_append:
  "applyWeekdayCutoff (xs @ ys) = applyWeekdayCutoff xs @ applyWeekdayCutoff ys"
  by (simp add: applyWeekdayCutoff_def)

lemma cutoff_collected:
  "applyWeekdayCutoff (concat (map fo_events (map (runDatasourceFetch w) srcs)))
     = concat (map fo_events (map (runDatasourceFetch w) srcs))"
  by (induction srcs) (simp_all add: applyWeekdayCutoff_Nil cutoff_append run_events cutoff_idem)

text \<open>
  C5. A failed fetch stays inside \<^verbatim>\<open>runDatasourceFetch\<close>: whatever error the fetch
  of a source throws, the source contributes no events and a summary with \<open>ok\<close> false
  that carries the error's message (\<^verbatim>\<open>Request failed\<close> when it has none) and
  status. Whenever sources are dispatched the answer carries one summary for each of
  them, in order, successful or not; and when at least one fetch succeeded the answer
  has status 200 and its events are, up to order, the events of all successful sources
  together, each source's events being its fetched events after the weekday cutoff.
\<close>

theorem provider_failure_is_contained:
  "(\<forall>s err. handlerFetch w s = Some (Inl err) \<longrightarrow>
       \<not> fo_ok (runDatasourceFetch w s) \<and> fo_events (runDatasourceFetch w s) = []
       \<and> \<not> sum_ok (fo_summary (runDatasourceFetch w s))
       \<and> sum_error (fo_summary (runDatasourceFetch w s))
           = Some (if err_message err \<noteq> [] then err_message err else ''Request failed'')
       \<and> sum_status (fo_summary (runDatasourceFetch w s)) = err_status err)
   \<and> (\<forall>s. fo_events (runDatasourceFetch w s) = applyWeekdayCutoff (fetchedEvents w s)
          \<and> sum_ok (fo_summary (runDatasourceFetch w s)) = fo_ok (runDatasourceFetch w s))
   \<and> map (sum_id \<circ> fo_summary) (dispatchResults w sources) = map src_id (dispatched sources)
   \<and> (coordinatesOk b q \<and> dispatched sources \<noteq> [] \<longrightarrow>
        (case res_body (apiShows b w sources q) of
           Shows P \<Rightarrow> sp_sources P = map fo_summary (dispatchResults w sources)
         | ErrorWithSources c ss \<Rightarrow> ss = map fo_summary (dispatchResults w sources)
         | ErrorBody c \<Rightarrow> False))
   \<and> (coordinatesOk b q \<and> list_ex fo_ok (dispatchResults w sources) \<longrightarrow>
        (\<exists>P. apiShows b w sources q = \<lparr>res_status = 200, res_body = Shows P\<rparr>
           \<and> mset (sp_events P)
               = mset (concat (map fo_events (filter fo_ok (dispatchResults w sources))))))"
proof (intro conjI impI allI)
  fix s :: datasource and err
  assume "handlerFetch w s = Some (Inl err)"
  note f = run_failed [OF this]
  show "\<not> fo_ok (runDatasourceFetch w s)" using f by blast
  show "fo_events (runDatasourceFetch w s) = []" using f by blast
  show "\<not> sum_ok (fo_summary (runDatasourceFetch w s))" using f by blast
  show "sum_error (fo_summary (runDatasourceFetch w s))
           = Some (if err_message err \<noteq> [] then err_message err else ''Request failed'')"
    using f by blast
  show "sum_status (fo_summary (runDatasourceFetch w s)) = err_status err" using f by blast
next
  fix s :: datasource
  show "fo_events (runDatasourceFetch w s) = applyWeekdayCutoff (fetchedEvents w s)"
    by (rule run_events)
  show "sum_ok (fo_summary (runDatasourceFetch w s)) = fo_ok (runDatasourceFetch w s)"
    by (rule run_summary_ok)
next
  show "map (sum_id \<circ> fo_summary) (dispatchResults w sources) = map src_id (dispatched sources)"
    by (simp add: dispatchResults_def run_summary_id)
next
  assume a: "coordinatesOk b q \<and> dispatched sources \<noteq> []"
  show "case res_body (apiShows b w sources q) of
           Shows P \<Rightarrow> sp_sources P = map fo_summary (dispatchResults w sources)
         | ErrorWithSources c ss \<Rightarrow> ss = map fo_summary (dispatchResults w sources)
         | ErrorBody c \<Rightarrow> False"
  proof (cases "list_ex fo_ok (dispatchResults w sources)")
    case True
    then show ?thesis using a by (simp add: apiShows_ok)
  next
    case False
    then show ?thesis using a by (simp add: apiShows_failed)
  qed
next
  assume a: "coordinatesOk b q \<and> list_ex fo_ok (dispatchResults w sources)"
  let ?P = "\<lparr>sp_source = (if length (dispatched sources) = 1 then src_id (hd (dispatched sources))
                           else ''mixed''),
             sp_cached = cs_cached (collectResults (dispatchResults w sources)),
             sp_radiusMiles = resolveRadius b (q_radius q),
             sp_lookaheadDays = resolveDays (q_days q),
             sp_events = sortEventsByTimeAndDistance b
                           (applyWeekdayCutoff (cs_events (collectResults (dispatchResults w sources)))),
             sp_sources = map fo_summary (dispatchResults w sources),
             sp_segments = cs_segments (collectResults (dispatchResults w sources))\<rparr>"
  have r: "apiShows b w sources q = \<lparr>res_status = 200, res_body = Shows ?P\<rparr>"
    using a by (simp add: apiShows_ok)
  have "cs_events (collectResults (dispatchResults w sources))
          = concat (map fo_events (filter fo_ok (dispatchResults w sources)))"
    by (rule collectResults_events)
  moreover have "applyWeekdayCutoff (concat (map fo_events (filter fo_ok (dispatchResults w sources))))
          = concat (map fo_events (filter fo_ok (dispatchResults w sources)))"
    unfolding dispatchResults_def ok_events_all by (rule cutoff_collected)
  ultimately have "mset (sp_events ?P)
          = mset (concat (map fo_events (filter fo_ok (dispatchResults w sources))))"
    by (simp add: sortEventsByTimeAndDistance_def mset_jsSort)
  then show "\<exists>P. apiShows b w sources q = \<lparr>res_status = 200, res_body = Shows P\<rparr>
           \<and> mset (sp_events P)
               = mset (concat (map fo_events (filter fo_ok (dispatchResults w sources))))"
    using r by blast
qed

theorem provider_failure_is_contained_witness:
  "handlerFetch sampleWorld (sampleSource ''blackcat'' ''blackcat'')
     = Some (Inl \<lparr>err_message = [], err_status = None, err_code = None, err_requestUrl = None\<rparr>)
   \<and> sum_error (fo_summary (runDatasourceFetch sampleWorld (sampleSource ''blackcat'' ''blackcat'')))
       = Some ''Request failed''
   \<and> fo_events (runDatasourceFetch sampleWorld (sampleSource ''blackcat'' ''blackcat'')) = []
   \<and> (\<exists>P. apiShows sampleBuiltins sampleWorld sampleSources (sampleQuery None None)
             = \<lparr>res_status = 200, res_body = Shows P\<rparr>
          \<and> mset (sp_events P) = mset [tmEvening, rssMatinee]
          \<and> map sum_ok (sp_sources P) = [True, False, True])"
proof -
  let ?bc = "sampleSource ''blackcat'' ''blackcat''"
  let ?e = "\<lparr>err_message = [], err_status = None, err_code = None, err_requestUrl = None\<rparr>"
  let ?q = "sampleQuery None None"
  have h1: "handlerFetch sampleWorld ?bc = Some (Inl ?e)"
    by code_simp
  have h2: "coordinatesOk sampleBuiltins ?q \<and> list_ex fo_ok (dispatchResults sampleWorld sampleSources)"
    by code_simp
  have h3: "coordinatesOk sampleBuiltins ?q \<and> dispatched sampleSources \<noteq> []"
    by code_simp
  have evs: "concat (map fo_events (filter fo_ok (dispatchResults sampleWorld sampleSources)))
               = [tmEvening, rssMatinee]"
    by code_simp
  have oks: "map sum_ok (map fo_summary (dispatchResults sampleWorld sampleSources))
               = [True, False, True]"
    by code_simp
  note f = provider_failure_is_contained [where w = sampleWorld, THEN conjunct1, rule_format,
      OF h1]
  note s = provider_failure_is_contained [where w = sampleWorld and b = sampleBuiltins
      and q = ?q and sources = sampleSources, THEN conjunct2, THEN conjunct2, THEN conjunct2,
      THEN conjunct1, rule_format, OF h3]
  obtain P where P: "apiShows sampleBuiltins sampleWorld sampleSources ?q
                       = \<lparr>res_status = 200, res_body = Shows P\<rparr>"
      and m: "mset (sp_events P)
                = mset (concat (map fo_events (filter fo_ok (dispatchResults sampleWorld sampleSources))))"
    using provider_failure_is_contained [where w = sampleWorld and b = sampleBuiltins
      and q = ?q and sources = sampleSources, THEN conjunct2, THEN conjunct2, THEN conjunct2,
      THEN conjunct2, rule_format, OF h2]
    by blast
  have ss: "sp_sources P = map fo_summary (dispatchResults sampleWorld sampleSources)"
    using s unfolding P by simp
  have c3: "map sum_ok (sp_sources P) = [True, False, True]"
    unfolding ss by (rule oks)
  have c2: "mset (sp_events P) = mset [tmEvening, rssMatinee]"
    unfolding m evs by (rule refl)
  have c0: "sum_error (fo_summary (runDatasourceFetch sampleWorld ?bc)) = Some ''Request failed''"
    using f by simp
  have c1: "fo_events (runDatasourceFetch sampleWorld ?bc) = []"
    using f by (elim conjE)
  show ?thesis
    by (intro conjI exI [of _ P]) (rule h1 c0 c1 P c2 c3)+
qed

subsection \<open>Start times and genres of emitted events\<close>

lemma format_start:
  assumes "formatTicketmasterEvent b ev = Inr (Some e)"
  shows "\<exists>st u. utcIso b st = Inr u \<and> start e = Some \<lparr>local = localIso b st, utc = u\<rparr>
           \<and> st = (case raw_start ev of Some v \<Rightarrow> v | None \<Rightarrow> emptyStart)
           \<and> genres e = classificationNameSet (raw_classifications ev)
           \<and> source e = Some ''ticketmaster'' \<and> event_id e = raw_id ev \<and> raw_id ev \<noteq> None"
  using assms
  by (auto simp: formatTicketmasterEvent_def Let_def split: option.splits sum.splits)

lemma utc_then_local:
  assumes "utcIso b st = Inr (Some v)"
  shows "truthy (dateTime st) \<and> localIso b st = Some v"
  using assms
  by (auto simp: utcIso_def localIso_def localDateTime_def truthy_def
      split: if_splits option.splits)

lemma utc_none:
  assumes "utcIso b st = Inr None"
  shows "\<not> truthy (dateTime st)"
  using assms by (auto simp: utcIso_def split: if_splits option.splits)

text \<open>
  C7 (as the code has it). In every event that the structured-API adapter emits,
  \<open>start.utc\<close> is set exactly when the provider gave a \<^verbatim>\<open>dateTime\<close>, and then
  \<open>start.local\<close> is the same timestamp; \<open>start.local\<close> may be a timestamp while
  \<open>start.utc\<close> is null. In every event of the RSS and iCal adapters \<open>start.local\<close>
  and \<open>start.utc\<close> are the same value: the start the adapter found, or both null.
\<close>

theorem start_utc_implies_same_local:
  "(\<forall>e. formatTicketmasterEvent b ev = Inr (Some e) \<longrightarrow>
       (\<exists>st. start e = Some st
          \<and> (utc st \<noteq> None \<longrightarrow> local st = utc st)
          \<and> (utc st \<noteq> None
               \<longleftrightarrow> truthy (dateTime (case raw_start ev of Some v \<Rightarrow> v | None \<Rightarrow> emptyStart)))))
   \<and> local (rssStart startIso) = utc (rssStart startIso)
   \<and> (truthy startIso \<longrightarrow> utc (rssStart startIso) = startIso)
   \<and> (\<not> truthy startIso \<longrightarrow> utc (rssStart startIso) = None)"
proof (intro conjI allI impI)
  fix e
  assume a: "formatTicketmasterEvent b ev = Inr (Some e)"
  let ?raw = "case raw_start ev of Some v \<Rightarrow> v | None \<Rightarrow> emptyStart"
  obtain u where u: "utcIso b ?raw = Inr u"
      and st: "start e = Some \<lparr>local = localIso b ?raw, utc = u\<rparr>"
    using format_start [OF a] by blast
  have "u \<noteq> None \<longrightarrow> localIso b ?raw = u"
    using utc_then_local [of b ?raw] u by (cases u) auto
  moreover have "u \<noteq> None \<longleftrightarrow> truthy (dateTime ?raw)"
    using utc_then_local [of b ?raw] utc_none [of b ?raw] u by (cases u) auto
  ultimately show "\<exists>st. start e = Some st
          \<and> (utc st \<noteq> None \<longrightarrow> local st = utc st)
          \<and> (utc st \<noteq> None \<longleftrightarrow> truthy (dateTime ?raw))"
    using st by simp
next
  show "local (rssStart startIso) = utc (rssStart startIso)"
    by (simp add: rssStart_def)
next
  assume "truthy startIso"
  then show "utc (rssStart startIso) = startIso"
    by (simp add: rssStart_def orNull_def)
next
  assume "\<not> truthy startIso"
  then show "utc (rssStart startIso) = None"
    by (simp add: rssStart_def orNull_def)
qed

theorem start_utc_implies_same_local_witness:
  "(\<exists>e st. formatTicketmasterEvent sampleBuiltins datedRaw = Inr (Some e)
       \<and> start e = Some st \<and> utc st = Some ''2024-01-05T19:00:00.000Z'' \<and> local st = utc st)
   \<and> utc (rssStart (Some ''2024-01-05T19:00:00.000Z'')) = Some ''2024-01-05T19:00:00.000Z''
   \<and> utc (rssStart (Some [])) = None"
proof -
  have "case formatTicketmasterEvent sampleBuiltins datedRaw of
          Inr (Some e) \<Rightarrow> map_option utc (start e) = Some (Some ''2024-01-05T19:00:00.000Z'')
        | _ \<Rightarrow> False"
    by code_simp
  then obtain e where e: "formatTicketmasterEvent sampleBuiltins datedRaw = Inr (Some e)"
      and u: "map_option utc (start e) = Some (Some ''2024-01-05T19:00:00.000Z'')"
    by (auto split: sum.splits option.splits)
  obtain st where st: "start e = Some st" and same: "utc st \<noteq> None \<longrightarrow> local st = utc st"
    using start_utc_implies_same_local [where b = sampleBuiltins and ev = datedRaw,
        THEN conjunct1, rule_format, OF e]
    by blast
  have us: "utc st = Some ''2024-01-05T19:00:00.000Z''"
    using u st by simp
  then have ls: "local st = utc st"
    using same by simp
  have t: "truthy (Some ''2024-01-05T19:00:00.000Z'')" and n: "\<not> truthy (Some [])"
    by code_simp+
  have r1: "utc (rssStart (Some ''2024-01-05T19:00:00.000Z'')) = Some ''2024-01-05T19:00:00.000Z''"
    using start_utc_implies_same_local [where startIso = "Some ''2024-01-05T19:00:00.000Z''",
        THEN conjunct2, THEN conjunct2, THEN conjunct1, rule_format, OF t] .
  have r2: "utc (rssStart (Some [])) = None"
    using start_utc_implies_same_local [where startIso = "Some []",
        THEN conjunct2, THEN conjunct2, THEN conjunct2, rule_format, OF n] .
  show ?thesis
    using e st us ls r1 r2 by blast
qed

text \<open>An event with a local date and no \<^verbatim>\<open>dateTime\<close> is emitted with a valid
  \<open>start.local\<close> and a null \<open>start.utc\<close>.\<close>

theorem date_only_event_counterexample:
  "(case formatTicketmasterEvent sampleBuiltins dateOnlyRaw of
      Inr (Some e) \<Rightarrow>
        start e = Some \<lparr>local = Some ''2024-01-05T00:00:00.000Z'', utc = None\<rparr>
    | _ \<Rightarrow> False)"
  by code_simp

lemma set_foldl_setAdd: "set (foldl setAdd acc xs) = set acc \<union> set xs"
  by (induction xs arbitrary: acc) (auto simp: setAdd_def)

lemma distinct_foldl_setAdd: "distinct acc \<Longrightarrow> distinct (foldl setAdd acc xs)"
  by (induction xs arbitrary: acc) (auto simp: setAdd_def)

lemma filter_nonempty: "g \<in> set (filter (\<lambda>n. n \<noteq> []) xs) \<Longrightarrow> g \<noteq> []"
  by simp

lemma classificationNames_nonempty: "g \<in> set (classificationNames cls) \<Longrightarrow> g \<noteq> []"
  unfolding classificationNames_def by (rule filter_nonempty)

lemma Museum_not_dateLike: "\<not> isCategoryDateLike ''Museum''"
  by code_simp

lemma Museum_lower: "toLowerCase (trim ''Museum'') = ''museum''"
  by code_simp

text \<open>
  C9 (as the code has it). The genres of an event of the structured-API adapter are
  non-empty and pairwise different as strings (the comparison is by case). The genres
  of an RSS event are the item's categories that are not date-like, in their order and
  with their repetitions, followed for the source \<^verbatim>\<open>smithsonian\<close> by
  \<^verbatim>\<open>Museum\<close> exactly when no entry already equals \<^verbatim>\<open>museum\<close> when trimmed
  and lower-cased; none of them is date-like.
\<close>

theorem genres_distinct_by_case:
  "(\<forall>e. formatTicketmasterEvent b ev = Inr (Some e) \<longrightarrow>
       distinct (genres e) \<and> (\<forall>g\<in>set (genres e). g \<noteq> []))
   \<and> (\<forall>g\<in>set (rssGenres sid cats). \<not> isCategoryDateLike g)
   \<and> (sid \<noteq> ''smithsonian'' \<longrightarrow>
        rssGenres sid cats = filter (\<lambda>c. \<not> isCategoryDateLike c) cats)
   \<and> (sid = ''smithsonian'' \<longrightarrow>
        (\<exists>g\<in>set (rssGenres sid cats). toLowerCase (trim g) = ''museum'')
        \<and> (rssGenres sid cats = filter (\<lambda>c. \<not> isCategoryDateLike c) cats
            \<or> rssGenres sid cats = filter (\<lambda>c. \<not> isCategoryDateLike c) cats @ [''Museum''])
        \<and> (rssGenres sid cats = filter (\<lambda>c. \<not> isCategoryDateLike c) cats
            \<longleftrightarrow> (\<exists>g\<in>set (filter (\<lambda>c. \<not> isCategoryDateLike c) cats).
                    toLowerCase (trim g) = ''museum'')))"
proof (intro conjI allI impI ballI)
  fix e
  assume a: "formatTicketmasterEvent b ev = Inr (Some e)"
  then have g: "genres e = classificationNameSet (raw_classifications ev)"
    using format_start [OF a] by blast
  show "distinct (genres e)"
    unfolding g classificationNameSet_def by (rule distinct_foldl_setAdd) simp
  fix x
  assume "x \<in> set (genres e)"
  then show "x \<noteq> []"
    unfolding g classificationNameSet_def set_foldl_setAdd
    using classificationNames_nonempty by auto
next
  fix g
  assume "g \<in> set (rssGenres sid cats)"
  then show "\<not> isCategoryDateLike g"
    using Museum_not_dateLike by (auto simp: rssGenres_def Let_def split: if_splits)
next
  assume "sid \<noteq> ''smithsonian''"
  then show "rssGenres sid cats = filter (\<lambda>c. \<not> isCategoryDateLike c) cats"
    by (simp add: rssGenres_def Let_def)
next
  assume s: "sid = ''smithsonian''"
  show "\<exists>g\<in>set (rssGenres sid cats). toLowerCase (trim g) = ''museum''"
  proof (cases "''museum'' \<in> set (map (\<lambda>genre. toLowerCase (trim genre))
                  (filter (\<lambda>c. \<not> isCategoryDateLike c) cats))")
    case True
    then have "rssGenres sid cats = filter (\<lambda>c. \<not> isCategoryDateLike c) cats"
      using s by (simp add: rssGenres_def Let_def)
    then show ?thesis using True by auto
  next
    case False
    then have "rssGenres sid cats = filter (\<lambda>c. \<not> isCategoryDateLike c) cats @ [''Museum'']"
      using s by (simp add: rssGenres_def Let_def)
    then show ?thesis using Museum_lower by simp
  qed
  show "rssGenres sid cats = filter (\<lambda>c. \<not> isCategoryDateLike c) cats
        \<or> rssGenres sid cats = filter (\<lambda>c. \<not> isCategoryDateLike c) cats @ [''Museum'']"
    by (simp add: rssGenres_def Let_def)
  show "rssGenres sid cats = filter (\<lambda>c. \<not> isCategoryDateLike c) cats
        \<longleftrightarrow> (\<exists>g\<in>set (filter (\<lambda>c. \<not> isCategoryDateLike c) cats).
                toLowerCase (trim g) = ''museum'')"
  proof (cases "''museum'' \<in> set (map (\<lambda>genre. toLowerCase (trim genre))
                  (filter (\<lambda>c. \<not> isCategoryDateLike c) cats))")
    case True
    then have "rssGenres sid cats = filter (\<lambda>c. \<not> isCategoryDateLike c) cats"
      using s by (simp add: rssGenres_def Let_def)
    then show ?thesis using True by auto
  next
    case False
    then have "rssGenres sid cats = filter (\<lambda>c. \<not> isCategoryDateLike c) cats @ [''Museum'']"
      using s by (simp add: rssGenres_def Let_def)
    moreover have "\<not> (\<exists>g\<in>set (filter (\<lambda>c. \<not> isCategoryDateLike c) cats).
                       toLowerCase (trim g) = ''museum'')"
      using False by (metis (no_types, lifting) image_eqI set_map)
    ultimately show ?thesis by simp
  qed
qed

theorem genres_distinct_by_case_witness:
  "(\<exists>e. formatTicketmasterEvent sampleBuiltins rockRaw = Inr (Some e)
       \<and> genres e = [''Music'', ''Rock'', ''rock''] \<and> distinct (genres e))
   \<and> rssGenres ''feed'' [''Jazz'', ''2024-01-05'', ''Jazz''] = [''Jazz'', ''Jazz'']
   \<and> (\<exists>g\<in>set (rssGenres ''smithsonian'' [''Talks'']). toLowerCase (trim g) = ''museum'')"
proof -
  have "case formatTicketmasterEvent sampleBuiltins rockRaw of
          Inr (Some e) \<Rightarrow> genres e = [''Music'', ''Rock'', ''rock'']
        | _ \<Rightarrow> False"
    by code_simp
  then obtain e where e: "formatTicketmasterEvent sampleBuiltins rockRaw = Inr (Some e)"
      and g: "genres e = [''Music'', ''Rock'', ''rock'']"
    by (auto split: sum.splits option.splits)
  have d: "distinct (genres e)"
    using genres_distinct_by_case [where b = sampleBuiltins and ev = rockRaw,
        THEN conjunct1, rule_format, OF e]
    by blast
  have n: "''feed'' \<noteq> ''smithsonian''"
    by simp
  have f: "filter (\<lambda>c. \<not> isCategoryDateLike c) [''Jazz'', ''2024-01-05'', ''Jazz'']
             = [''Jazz'', ''Jazz'']"
    by code_simp
  have r: "rssGenres ''feed'' [''Jazz'', ''2024-01-05'', ''Jazz''] = [''Jazz'', ''Jazz'']"
    using genres_distinct_by_case [where sid = "''feed''"
        and cats = "[''Jazz'', ''2024-01-05'', ''Jazz'']",
        THEN conjunct2, THEN conjunct2, THEN conjunct1, rule_format, OF n] f
    by simp
  have m: "\<exists>g\<in>set (rssGenres ''smithsonian'' [''Talks'']). toLowerCase (trim g) = ''museum''"
    using genres_distinct_by_case [where sid = "''smithsonian''" and cats = "[''Talks'']",
        THEN conjunct2, THEN conjunct2, THEN conjunct2, rule_format, OF refl]
    by blast
  show ?thesis
    using e g d r m by blast
qed

text \<open>Two classification names that differ only in case are both kept, and an RSS
  item's repeated category is kept twice.\<close>

theorem genres_case_duplicates_counterexample:
  "(case formatTicketmasterEvent sampleBuiltins rockRaw of
      Inr (Some e) \<Rightarrow>
        genres e = [''Music'', ''Rock'', ''rock''] \<and> \<not> distinct (map toLowerCase (genres e))
    | _ \<Rightarrow> False)
   \<and> rssGenres ''feed'' [''Jazz'', ''jazz''] = [''Jazz'', ''jazz'']
   \<and> \<not> distinct (map toLowerCase (rssGenres ''feed'' [''Jazz'', ''jazz'']))"
  by code_simp

subsection \<open>The iCal date-time parser\<close>

lemma zoned_result:
  assumes "zonedTimeToUtcIso b y m d h mi s z = Some r"
  shows "\<exists>wall off. Date_UTC y (m - 1) d h mi s = Some wall \<and> zoneOffset b z = Some off
           \<and> r = wall - off wall"
  using assms
  by (auto simp: zonedTimeToUtcIso_def Let_def TimeClip_def split: option.splits if_splits)

text \<open>The conversion of \<^verbatim>\<open>zonedTimeToUtcIso\<close> is right whenever the zone has the same
  offset at the result as at the wall-clock fields read as UTC; so always for a zone
  with a constant offset.\<close>

lemma zoned_right_when_offset_stable:
  assumes "zonedTimeToUtcIso b y m d h mi s z = Some r"
    and "Date_UTC y (m - 1) d h mi s = Some wall"
    and "zoneOffset b z = Some off"
    and "off r = off wall"
  shows "isWallClockOf off wall r"
  using zoned_result [OF assms(1)] assms(2-4)
  by (auto simp: isWallClockOf_def)

text \<open>
  C8, at the input where the code departs from it. On 10 March 2024 the zone
  \<^verbatim>\<open>America/New_York\<close> went from five to four hours behind UTC at 07:00 UTC. The
  literal \<^verbatim>\<open>20240310T033000\<close> with \<^verbatim>\<open>TZID=America/New_York\<close> names 03:30 local
  time, which is 07:30 UTC; \<^verbatim>\<open>parseIcalDateTime\<close> returns 08:30 UTC, because it
  takes the zone's offset at 03:30 UTC. A \<^verbatim>\<open>Z\<close> literal and a January time in the
  same zone are converted as they should be.
\<close>

theorem ical_zone_conversion_near_dst_change:
  "parseIcalDateTime sampleBuiltins ''20240310T033000'' (Some ''America/New_York'') None
     = Inr (Some 1710059400000)
   \<and> isoParse ''2024-03-10T08:30:00.000Z'' = Some 1710059400000
   \<and> Date_UTC 2024 2 10 3 30 0 = Some 1710041400000
   \<and> \<not> isWallClockOf newYork2024 1710041400000 1710059400000
   \<and> isoParse ''2024-03-10T07:30:00.000Z'' = Some 1710055800000
   \<and> isWallClockOf newYork2024 1710041400000 1710055800000
   \<and> parseIcalDateTime sampleBuiltins ''20240105T190000Z'' None None = Inr (Some 1704481200000)
   \<and> isoParse ''2024-01-05T19:00:00.000Z'' = Some 1704481200000
   \<and> parseIcalDateTime sampleBuiltins ''20240105T190000'' (Some ''America/New_York'') None
       = Inr (Some 1704499200000)
   \<and> isoParse ''2024-01-06T00:00:00.000Z'' = Some 1704499200000"
  by code_simp

end
